theory Spec2Isabelle
  imports Main "HOL-Library.Multiset"
begin

section \<open>Data model of \<^verbatim>\<open>rocker/build/internals.go\<close>\<close>

text \<open>
  A Go \<^verbatim>\<open>error\<close> is modelled by the text its \<^verbatim>\<open>Error()\<close> method returns: the source
  only ever creates errors with \<^verbatim>\<open>fmt.Errorf\<close>, passes them on, or compares that text.
\<close>

datatype error = Error (message: string)

text \<open>
  \<^verbatim>\<open>time.Duration\<close> counts nanoseconds; \<^verbatim>\<open>time.Time\<close> is an instant, read here as
  nanoseconds on one clock, so that \<^verbatim>\<open>a.Before(b)\<close> is \<open>a < b\<close>.
\<close>

type_synonym Duration = nat
type_synonym Time = int

definition Second :: Duration where
  "Second = 1000000000"

text \<open>
  Modelled from the spec: the declaration of \<^verbatim>\<open>docker.Config\<close> is not part of the
  source file; the spec lists a command, labels, declared volumes and an image
  reference. Go maps are reference values, so the record is written once over the type
  of its two map-valued fields: with references into a store (\<open>Config\<close>, the struct as
  it lies in memory, \<open>None\<close> the nil map) and with the maps' contents (\<open>ConfigV\<close>, the
  value a reader of the struct sees, as a JSON decoder or \<^verbatim>\<open>CompareConfigs\<close> does).
\<close>

record ('l, 'v) ConfigOf =
  Cmd :: "string list"
  Image :: string
  Labels :: 'l
  Volumes :: 'v

type_synonym ref = nat
type_synonym Config = "(ref option, ref option) ConfigOf"
type_synonym ConfigV = "((string \<rightharpoonup> string) option, (string set) option) ConfigOf"

text \<open>
  Modelled from the spec: \<^verbatim>\<open>docker.APIImages\<close> (an entry of the engine's image list) and
  \<^verbatim>\<open>docker.Image\<close> (an inspected image) with the fields the source reads: identity,
  parent identity, creation time, originating container configuration, configuration
  (\<open>imageConfig\<close>, the struct behind the pointer \<^verbatim>\<open>image.Config\<close>, which an inspection
  that succeeds sets).
\<close>

record APIImages =
  apiID :: string
  ParentID :: string

record Image =
  ID :: string
  Created :: Time
  ContainerConfig :: ConfigV
  imageConfig :: ConfigV

text \<open>
  Modelled from the spec: the credentials and the options of the engine's build, pull and
  push calls, declared by the engine client; of the options, the fields the source file
  sets from the session.
\<close>

record AuthConfiguration =
  Username :: string
  Password :: string

record BuildImageOptions =
  Dockerfile :: string
  ContextDir_opt :: string
  NoCache :: bool
  Auth_opt :: AuthConfiguration

record PullImageOptions =
  Repository :: string
  pullRegistry :: string
  pullTag :: string

record PushImageOptions =
  pushName :: string
  pushTag :: string
  pushRegistry :: string

text \<open>
  Modelled from the spec: \<^verbatim>\<open>imagename.ImageName\<close> (registry/repository/tag form of an image
  name) and \<^verbatim>\<open>docker.Container\<close>, of which the source reads the identifier only.
\<close>

record ImageName =
  Registry :: string
  Name :: string
  Tag :: string

record Container =
  Container_ID :: string

text \<open>
  Modelled from the spec: an instruction node of \<^verbatim>\<open>rocker/parser\<close> (not part of the source
  file), a keyword and its argument chain; \<open>Next = None\<close> is the nil pointer. A mount is
  a source path, a destination path and the owning container's identifier.
\<close>

datatype Node = Node (Value: string) (Next: "Node option")

record mount =
  src :: string
  dest :: string
  containerID :: string

text \<open>
  Modelled from the spec: the declaration of the session, \<^verbatim>\<open>Builder\<close>, is not part of the
  source file; these are the fields the file reads and writes, as the spec's data model
  lists them. \<open>Config\<close> is the struct behind the pointer \<^verbatim>\<open>builder.Config\<close>, which the
  session alone holds; \<open>dockerfile\<close> is \<^verbatim>\<open>builder.dockerfile.Children\<close>. A slice is
  modelled by its contents (the file never writes an element of a slice of the draft), a
  map by a reference: the two stores hold the map objects that configuration structs
  refer to, \<open>nextRef\<close> is the next free address.
\<close>

record Builder =
  imageID :: string
  Config :: Config
  dockerfile :: "Node list"
  UtilizeCache :: bool
  cacheBusted :: bool
  exportsContainerID :: string
  mounts :: "mount list"
  allMounts :: "mount list"
  Rockerfile :: string
  ContextDir :: string
  Auth :: AuthConfiguration
  gitIgnored :: bool
  labelStore :: "ref \<rightharpoonup> (string \<rightharpoonup> string)"
  volumeStore :: "ref \<rightharpoonup> string set"
  nextRef :: ref

text \<open>
  Everything outside the session: the calls issued to the engine, the files written to
  the context directory and the lines printed to the progress sink, in order, and the
  time spent waiting in \<^verbatim>\<open>select\<close>.
\<close>

datatype call =
    ListImagesCall
  | InspectImageCall string
  | BuildImageCall BuildImageOptions
  | PullImageCall PullImageOptions
  | PushImageCall PushImageOptions
  | EnsureContainerCall string ConfigV string
  | WriteFileCall string string
  | RemoveCall string
  | Fprintf string

record World =
  calls :: "call list"
  clock :: Duration

text \<open>
  The answers of the collaborators during one operation: the engine client, and the
  functions of this repository that the source file calls and does not define
  (\<^verbatim>\<open>CompareConfigs\<close>, \<^verbatim>\<open>RockerfileAstToString\<close>, \<^verbatim>\<open>dockerfileName\<close>,
  \<^verbatim>\<open>getTmpPrefix\<close>, \<^verbatim>\<open>rockerfileRelativePath\<close>, the
  \<^verbatim>\<open>imagename\<close> package, \<^verbatim>\<open>ensureContainer\<close>, \<^verbatim>\<open>exportsContainerName\<close>, the constants
  \<^verbatim>\<open>rsyncImage\<close> and \<^verbatim>\<open>exportsVolume\<close>) and the library functions \<^verbatim>\<open>path.Join\<close>,
  \<^verbatim>\<open>ioutil.WriteFile\<close> and \<^verbatim>\<open>jsonmessage.DisplayJSONMessagesStream\<close>, taken as
  parameters. A streaming call answers with the text it wrote to its output stream and
  its error; the decoder answers for the text it read. \<open>StatNotExist\<close> is
  \<^verbatim>\<open>os.IsNotExist\<close> of the error of \<^verbatim>\<open>os.Stat\<close>; \<open>Open\<close> is \<^verbatim>\<open>os.Open\<close> followed by a
  \<^verbatim>\<open>bufio.Scanner\<close> run to its end: the lines it read and its final error.
\<close>

record Env =
  ListImages :: "error + APIImages list"
  InspectImage :: "string \<Rightarrow> error + Image"
  BuildImage :: "BuildImageOptions \<Rightarrow> string \<times> error option"
  PullImage :: "PullImageOptions \<Rightarrow> AuthConfiguration \<Rightarrow> string \<times> error option"
  PushImage :: "PushImageOptions \<Rightarrow> AuthConfiguration \<Rightarrow> string \<times> error option"
  DisplayJSONMessagesStream :: "string \<Rightarrow> error option"
  WriteFile :: "string \<Rightarrow> string \<Rightarrow> error option"
  pathJoin :: "string \<Rightarrow> string \<Rightarrow> string"
  CompareConfigs :: "ConfigV \<Rightarrow> ConfigV \<Rightarrow> bool"
  RockerfileAstToString :: "Node list \<Rightarrow> error + string"
  dockerfileName :: string
  getTmpPrefix :: string
  rockerfileRelativePath :: string
  StatNotExist :: "string \<Rightarrow> bool"
  Open :: "string \<Rightarrow> error + string list \<times> error option"
  NewFromString :: "string \<Rightarrow> ImageName"
  NameWithRegistry :: "ImageName \<Rightarrow> string"
  GetTag :: "ImageName \<Rightarrow> string"
  String :: "ImageName \<Rightarrow> string"
  ensureContainer :: "string \<Rightarrow> ConfigV \<Rightarrow> string \<Rightarrow> error + Container"
  exportsContainerName :: string
  rsyncImage :: string
  exportsVolume :: string

section \<open>The cache prober\<close>

definition timeoutError :: error where
  "timeoutError = Error ''Timeout while fetching cached images''"

text \<open>
  The collecting loop of \<^verbatim>\<open>imageGetCached\<close>. Each inspection goroutine sends one message,
  an image on \<^verbatim>\<open>ch\<close> or an error on \<^verbatim>\<open>errch\<close>. The loop is run against the sequence of
  these messages in the order the \<^verbatim>\<open>select\<close> receives them, each with the time the
  \<^verbatim>\<open>select\<close> has to wait for it. Every iteration evaluates \<^verbatim>\<open>time.After(10 * time.Second)\<close>
  anew: a message that is there before this timer fires is received; the timer case is
  taken when the message is not there within ten seconds of the start of this iteration,
  or when no goroutine is left to send. The second component of the result is the time
  spent in the loop.
\<close>

fun collect ::
  "(ConfigV \<Rightarrow> ConfigV \<Rightarrow> bool) \<Rightarrow> ConfigV \<Rightarrow> nat \<Rightarrow> (Duration \<times> (error + Image)) list
    \<Rightarrow> Image option \<Rightarrow> nat \<Rightarrow> Duration \<Rightarrow> (error + Image option) \<times> Duration" where
  "collect cmp config n [] match numResponses t = (Inl timeoutError, t + 10 * Second)"
| "collect cmp config n ((wait, m) # rest) match numResponses t =
     (if 10 * Second \<le> wait then (Inl timeoutError, t + 10 * Second)
      else case m of
        Inl err \<Rightarrow> (Inl err, t + wait)
      | Inr img \<Rightarrow>
          (let match' =
                 (if cmp (ContainerConfig img) config
                  then (case match of
                          None \<Rightarrow> Some img
                        | Some old \<Rightarrow> if Created old < Created img then Some img else match)
                  else match);
               numResponses' = numResponses + 1
           in if n = numResponses' then (Inr match', t + wait)
              else collect cmp config n rest match' numResponses' (t + wait)))"

text \<open>
  \<^verbatim>\<open>imageGetCached\<close>. \<open>sched\<close> is the order in which the goroutines deliver: the
  candidate inspected and the wait before its message. The function reads the session
  only through its arguments.
\<close>

definition siblingsOf :: "string \<Rightarrow> APIImages list \<Rightarrow> string list" where
  "siblingsOf parent images = map apiID (filter (\<lambda>img. ParentID img = parent) images)"

definition imageGetCached ::
  "Env \<Rightarrow> (Duration \<times> string) list \<Rightarrow> string \<Rightarrow> ConfigV \<Rightarrow> World
    \<Rightarrow> (error + Image option) \<times> World" where
  "imageGetCached env sched parent config w =
     (let w1 = w\<lparr>calls := calls w @ [ListImagesCall]\<rparr> in
      case ListImages env of
        Inl err \<Rightarrow> (Inl err, w1)
      | Inr images \<Rightarrow>
          (let siblings = siblingsOf parent images in
           if length siblings = 0 then (Inr None, w1)
           else
             (let w2 = w1\<lparr>calls := calls w1 @ map InspectImageCall siblings\<rparr>;
                  arrivals = map (\<lambda>(wait, sid). (wait, InspectImage env sid)) sched;
                  (res, t) = collect (CompareConfigs env) config (length siblings) arrivals None 0 0
              in (res, w2\<lparr>clock := clock w2 + t\<rparr>))))"

text \<open>The value of a configuration struct: its map references read in the stores.\<close>

definition readLabels :: "Builder \<Rightarrow> ref \<Rightarrow> (string \<rightharpoonup> string)" where
  "readLabels b r = (case labelStore b r of None \<Rightarrow> Map.empty | Some m \<Rightarrow> m)"

definition readVolumes :: "Builder \<Rightarrow> ref \<Rightarrow> string set" where
  "readVolumes b r = (case volumeStore b r of None \<Rightarrow> {} | Some m \<Rightarrow> m)"

definition configValue :: "Builder \<Rightarrow> Config \<Rightarrow> ConfigV" where
  "configValue b c =
     \<lparr>Cmd = Cmd c, Image = Image c,
      Labels = map_option (readLabels b) (Labels c),
      Volumes = map_option (readVolumes b) (Volumes c)\<rparr>"

definition probeCache ::
  "Env \<Rightarrow> (Duration \<times> string) list \<Rightarrow> Builder \<times> World
    \<Rightarrow> (bool \<times> error option) \<times> Builder \<times> World" where
  "probeCache env sched s =
     (let (b, w) = s in
      if \<not> UtilizeCache b \<or> cacheBusted b then ((False, None), b, w)
      else
        (case imageGetCached env sched (imageID b) (configValue b (Config b)) w of
           (Inl err, w1) \<Rightarrow> ((False, Some err), b, w1)
         | (Inr None, w1) \<Rightarrow> ((False, None), b\<lparr>cacheBusted := True\<rparr>, w1)
         | (Inr (Some cache), w1) \<Rightarrow>
             ((True, None), b\<lparr>imageID := ID cache\<rparr>,
              w1\<lparr>calls := calls w1 @ [Fprintf ''[Rocker]  ---> Using cache\<newline>'']\<rparr>)))"


section \<open>The configuration overlay manager\<close>

text \<open>
  \<^verbatim>\<open>addLabels\<close> creates the label map when the draft has none and then writes every
  pair into the map the draft refers to, in place.
\<close>

definition addLabels :: "(string \<rightharpoonup> string) \<Rightarrow> Builder \<Rightarrow> Builder" where
  "addLabels labels b =
     (let b1 = (case Labels (Config b) of
                  None \<Rightarrow>
                    b\<lparr>Config := (Config b)\<lparr>Labels := Some (nextRef b)\<rparr>,
                      labelStore := (labelStore b)(nextRef b \<mapsto> Map.empty),
                      nextRef := nextRef b + 1\<rparr>
                | Some r \<Rightarrow> b)
      in case Labels (Config b1) of
           None \<Rightarrow> b1
         | Some r \<Rightarrow> b1\<lparr>labelStore := (labelStore b1)(r \<mapsto> readLabels b1 r ++ labels)\<rparr>)"

text \<open>
  \<^verbatim>\<open>temporaryCmd\<close> and \<^verbatim>\<open>temporaryConfig\<close> return the function that ends the scope, next
  to the session they leave behind; the caller runs that function once, when the scope
  ends (\<^verbatim>\<open>defer\<close>). \<^verbatim>\<open>origConfig := *builder.Config\<close> copies the struct: its strings and
  slices, and the references of its maps.
\<close>

definition temporaryCmd :: "string list \<Rightarrow> Builder \<Rightarrow> (Builder \<Rightarrow> Builder) \<times> Builder" where
  "temporaryCmd cmd b =
     (let origCmd = Cmd (Config b);
          b1 = b\<lparr>Config := (Config b)\<lparr>Cmd := cmd\<rparr>\<rparr>
      in (\<lambda>b'. b'\<lparr>Config := (Config b')\<lparr>Cmd := origCmd\<rparr>\<rparr>, b1))"

definition temporaryConfig ::
  "(Builder \<times> World \<Rightarrow> Builder \<times> World) \<Rightarrow> Builder \<times> World
    \<Rightarrow> (Builder \<Rightarrow> Builder) \<times> Builder \<times> World" where
  "temporaryConfig fn s =
     (let origConfig = Config (fst s);
          s1 = fn s
      in (\<lambda>b'. b'\<lparr>Config := origConfig\<rparr>, s1))"

section \<open>The build driver\<close>

text \<open>
  \<^verbatim>\<open>captureImageID = regexp.MustCompile("Successfully built ([a-z0-9]{12})")\<close> and its
  \<^verbatim>\<open>FindStringSubmatch\<close>: the leftmost match with its one group, or the empty slice.
\<close>

definition idChar :: "char \<Rightarrow> bool" where
  "idChar c \<longleftrightarrow>
     (let n = (of_char c :: nat) in (97 \<le> n \<and> n \<le> 122) \<or> (48 \<le> n \<and> n \<le> 57))"

definition matchHere :: "string \<Rightarrow> string option" where
  "matchHere s =
     (let lit = ''Successfully built '';
          tok = take 12 (drop (length lit) s)
      in if take (length lit) s = lit \<and> length tok = 12 \<and> list_all idChar tok
         then Some tok else None)"

fun FindStringSubmatch :: "string \<Rightarrow> string list" where
  "FindStringSubmatch [] = []"
| "FindStringSubmatch (c # cs) =
     (case matchHere (c # cs) of
        Some tok \<Rightarrow> [''Successfully built '' @ tok, tok]
      | None \<Rightarrow> FindStringSubmatch cs)"

text \<open>
  The result of \<^verbatim>\<open>runDockerfile\<close>: \<^verbatim>\<open>nil\<close>, an error, or the panic of reading
  \<^verbatim>\<open>Children[0].Next.Value\<close> when a lone \<^verbatim>\<open>from\<close> node has no argument.
\<close>

datatype result = Ok | Fail error | NilPanic

text \<open>
  \<^verbatim>\<open>builder.Config = image.Config\<close>: the inspected image's configuration is a freshly
  decoded struct, whose maps are new objects.
\<close>

definition setConfig :: "ConfigV \<Rightarrow> Builder \<Rightarrow> Builder" where
  "setConfig cv b =
     b\<lparr>Config :=
         \<lparr>Cmd = Cmd cv, Image = Image cv,
          Labels = (case Labels cv of None \<Rightarrow> None | Some m \<Rightarrow> Some (nextRef b)),
          Volumes = (case Volumes cv of None \<Rightarrow> None | Some v \<Rightarrow> Some (nextRef b + 1))\<rparr>,
       labelStore :=
         (case Labels cv of None \<Rightarrow> labelStore b | Some m \<Rightarrow> (labelStore b)(nextRef b \<mapsto> m)),
       volumeStore :=
         (case Volumes cv of None \<Rightarrow> volumeStore b | Some v \<Rightarrow> (volumeStore b)(nextRef b + 1 \<mapsto> v)),
       nextRef := nextRef b + 2\<rparr>"

definition say :: "call \<Rightarrow> World \<Rightarrow> World" where
  "say c w = w\<lparr>calls := calls w @ [c]\<rparr>"

text \<open>
  The two edge cases \<^verbatim>\<open>runDockerfile\<close> settles before it serialises the instructions
  (\<open>c\<close> is \<^verbatim>\<open>Children[0]\<close>): a lone \<^verbatim>\<open>FROM scratch\<close> gets a dummy label instruction, and
  a sequence that does not start with \<^verbatim>\<open>from\<close> gets one for the current image. \<open>Inl\<close> is
  an exit of \<^verbatim>\<open>runDockerfile\<close> at this point, with the session as it is then.
\<close>

definition normalizeChildren :: "Node \<Rightarrow> Builder \<Rightarrow> (result \<times> Builder) + Builder" where
  "normalizeChildren c b =
     (if length (dockerfile b) = 1 \<and> Value c = ''from'' \<and> Next c = None then Inl (NilPanic, b)
      else
        (let b1 = (if length (dockerfile b) = 1 \<and> Value c = ''from''
                      \<and> map_option Value (Next c) = Some ''scratch''
                   then b\<lparr>dockerfile := dockerfile b @
                            [Node ''label'' (Some (Node ''ROCKER_SCRATCH=1'' None))]\<rparr>
                   else b)
         in if Value c \<noteq> ''from''
            then if imageID b1 = []
                 then Inl (Fail (Error ''Missing initial FROM instruction''), b1)
                 else Inr (b1\<lparr>dockerfile :=
                              Node ''from'' (Some (Node (imageID b1) None)) # dockerfile b1\<rparr>)
            else Inr b1))"

definition parseError :: error where
  "parseError = Error ''Couldn't find image id out of docker build output''"

definition runDockerfile :: "Env \<Rightarrow> Builder \<times> World \<Rightarrow> result \<times> Builder \<times> World" where
  "runDockerfile env s =
     (let (b, w) = s in
      case dockerfile b of
        [] \<Rightarrow> (Ok, b, w)
      | c # cs \<Rightarrow>
          (case normalizeChildren c b of
             Inl (r, b1) \<Rightarrow> (r, b1, w)
           | Inr b2 \<Rightarrow>
               (let dockerfilePath = pathJoin env (ContextDir b2) (dockerfileName env) in
                case RockerfileAstToString env (dockerfile b2) of
                  Inl err \<Rightarrow> (Fail err, b2, w)
                | Inr dockerfileContent \<Rightarrow>
                    (let w1 = say (WriteFileCall dockerfilePath dockerfileContent) w in
                     case WriteFile env dockerfilePath dockerfileContent of
                       Some err \<Rightarrow> (Fail err, b2, w1)
                     | None \<Rightarrow>
                         (let opts = \<lparr>Dockerfile = dockerfileName env,
                                      ContextDir_opt = ContextDir b2,
                                      NoCache = (\<not> UtilizeCache b2),
                                      Auth_opt = Auth b2\<rparr>;
                              w2 = say (BuildImageCall opts) w1;
                              (buf, buildErr) = BuildImage env opts;
                              removed = say (RemoveCall dockerfilePath)
                          in case DisplayJSONMessagesStream env buf of
                               Some err \<Rightarrow>
                                 (Fail (Error (''Failed to process json stream error: ''
                                                @ message err)), b2, removed w2)
                             | None \<Rightarrow>
                                 (case buildErr of
                                    Some err \<Rightarrow>
                                      (Fail (Error (''Failed to build image: '' @ message err)),
                                       b2, removed w2)
                                  | None \<Rightarrow>
                                      (let matches = FindStringSubmatch buf in
                                       if length matches = 0
                                       then (Fail parseError, b2, removed w2)
                                       else
                                         (let builtID = matches ! 1;
                                              w3 = say (InspectImageCall builtID) w2
                                          in case InspectImage env builtID of
                                               Inl err \<Rightarrow>
                                                 (Fail (if message err = ''no such image''
                                                        then Error (''No such image: '' @ builtID)
                                                        else err),
                                                  b2, removed w3)
                                             | Inr img \<Rightarrow>
                                                 (Ok,
                                                  (setConfig (imageConfig img) b2)
                                                    \<lparr>imageID := ID img, dockerfile := []\<rparr>,
                                                  removed w3)))))))))"

section \<open>Image acquisition\<close>

definition ensureImage :: "Env \<Rightarrow> string \<Rightarrow> string \<Rightarrow> Builder \<Rightarrow> World \<Rightarrow> error option \<times> World" where
  "ensureImage env imageName purpose b w =
     (let w1 = say (InspectImageCall imageName) w in
      case InspectImage env imageName of
        Inr _ \<Rightarrow> (None, w1)
      | Inl err \<Rightarrow>
          if message err = ''no such image''
          then
            (let w2 = say (Fprintf (''[Rocker] Pulling image: '' @ imageName @ '' for '' @ purpose
                                     @ ''\<newline>'')) w1;
                 name = NewFromString env imageName;
                 pullOpts = \<lparr>Repository = NameWithRegistry env name,
                             pullRegistry = Registry name,
                             pullTag = GetTag env name\<rparr>;
                 w3 = say (PullImageCall pullOpts) w2;
                 (out, pullErr) = PullImage env pullOpts (Auth b)
             in case DisplayJSONMessagesStream env out of
                  Some err' \<Rightarrow>
                    (Some (Error (''Failed to process json stream for image: '' @ String env name
                                   @ '', error: '' @ message err')), w3)
                | None \<Rightarrow>
                    (case pullErr of
                       Some err' \<Rightarrow>
                         (Some (Error (''Failed to pull image: '' @ String env name
                                        @ '', error: '' @ message err')), w3)
                     | None \<Rightarrow> (None, w3)))
          else (Some err, w1))"

definition pushImage :: "Env \<Rightarrow> ImageName \<Rightarrow> Builder \<Rightarrow> World \<Rightarrow> error option \<times> World" where
  "pushImage env name b w =
     (let pushOpts = \<lparr>pushName = NameWithRegistry env name,
                      pushTag = GetTag env name,
                      pushRegistry = Registry name\<rparr>;
          w1 = say (PushImageCall pushOpts) w;
          (out, pushErr) = PushImage env pushOpts (Auth b)
      in case DisplayJSONMessagesStream env out of
           Some err \<Rightarrow>
             (Some (Error (''Failed to process json stream for image: '' @ String env name
                            @ '', error: '' @ message err)), w1)
         | None \<Rightarrow>
             (case pushErr of
                Some err \<Rightarrow>
                  (Some (Error (''Failed to push image: '' @ String env name
                                 @ '', error: '' @ message err)), w1)
              | None \<Rightarrow> (None, w1)))"

section \<open>The auxiliary container manager\<close>

definition makeExportsContainer ::
  "Env \<Rightarrow> Builder \<times> World \<Rightarrow> (string \<times> error option) \<times> Builder \<times> World" where
  "makeExportsContainer env s =
     (let (b, w) = s in
      if exportsContainerID b \<noteq> [] then ((exportsContainerID b, None), b, w)
      else
        (let name = exportsContainerName env;
             containerConfig =
               \<lparr>Cmd = [], Image = rsyncImage env,
                Labels = Some [''Rockerfile'' \<mapsto> Rockerfile b, ''ImageId'' \<mapsto> imageID b],
                Volumes = Some {''/opt/rsync/bin'', exportsVolume env}\<rparr>;
             w1 = say (EnsureContainerCall name containerConfig ''exports'') w
         in case ensureContainer env name containerConfig ''exports'' of
              Inl err \<Rightarrow> (([], Some err), b, w1)
            | Inr container \<Rightarrow>
                ((Container_ID container, None),
                 b\<lparr>exportsContainerID := Container_ID container\<rparr>, w1)))"


section \<open>The context-ignore file\<close>

text \<open>\<^verbatim>\<open>strings.Join\<close>, and \<^verbatim>\<open>%d\<close> of a length.\<close>

fun Join :: "string list \<Rightarrow> string \<Rightarrow> string" where
  "Join [] sep = []"
| "Join [x] sep = x"
| "Join (x # y # ys) sep = x @ sep @ Join (y # ys) sep"

fun decimal :: "nat \<Rightarrow> string" where
  "decimal n =
     (if n < 10 then [char_of (48 + n)] else decimal (n div 10) @ [char_of (48 + n mod 10)])"

text \<open>
  The scanning loop of \<^verbatim>\<open>checkDockerignore\<close> over the lines of the file: every line is
  kept, \<^verbatim>\<open>.git\<close> sets \<^verbatim>\<open>gitIgnored\<close>, and the first required line equal to the current
  one is taken off \<^verbatim>\<open>ignoreLines\<close>.
\<close>

fun scanLines ::
  "string list \<Rightarrow> string list \<times> string list \<times> bool \<Rightarrow> string list \<times> string list \<times> bool" where
  "scanLines [] acc = acc"
| "scanLines (currentLine # rest) (newLines, ignoreLines, git) =
     scanLines rest
       (newLines @ [currentLine], remove1 currentLine ignoreLines, git \<or> currentLine = ''.git'')"

definition checkDockerignore :: "Env \<Rightarrow> Builder \<times> World \<Rightarrow> error option \<times> Builder \<times> World" where
  "checkDockerignore env s =
     (let (b, w) = s;
          ignoreLines = [''.dockerignore'', getTmpPrefix env @ ''*'', rockerfileRelativePath env];
          dockerignoreFile = pathJoin env (ContextDir b) ''.dockerignore''
      in if StatNotExist env dockerignoreFile
         then
           (let w1 = say (Fprintf ''[Rocker] Create .dockerignore in context directory\<newline>'') w;
                newLines =
                  ''# This file is automatically generated by Rocker, please keep it'' # ignoreLines;
                content = Join newLines ''\<newline>'' @ ''\<newline>''
            in (WriteFile env dockerignoreFile content, b,
                say (WriteFileCall dockerignoreFile content) w1))
         else
           (case Open env dockerignoreFile of
              Inl err \<Rightarrow> (Some err, b, w)
            | Inr (lines, scanErr) \<Rightarrow>
                (let (newLines, ignoreLines', git) = scanLines lines ([], ignoreLines, gitIgnored b);
                     b1 = b\<lparr>gitIgnored := git\<rparr>
                 in case scanErr of
                      Some err \<Rightarrow> (Some err, b1, w)
                    | None \<Rightarrow>
                        if length ignoreLines' > 0
                        then
                          (let w1 = say (Fprintf (''[Rocker] Add '' @ decimal (length ignoreLines')
                                                   @ '' lines to .dockerignore\<newline>'')) w;
                               content = Join (newLines @ ignoreLines') ''\<newline>'' @ ''\<newline>''
                           in (WriteFile env dockerignoreFile content, b1,
                               say (WriteFileCall dockerignoreFile content) w1))
                        else (None, b1, w))))"

section \<open>Notions used to state the properties\<close>

text \<open>One iteration's update of \<^verbatim>\<open>match\<close> in the collecting loop.\<close>

definition keep :: "(ConfigV \<Rightarrow> ConfigV \<Rightarrow> bool) \<Rightarrow> ConfigV \<Rightarrow> Image option \<Rightarrow> Image \<Rightarrow> Image option" where
  "keep cmp config match img =
     (if cmp (ContainerConfig img) config
      then (case match of None \<Rightarrow> Some img
            | Some old \<Rightarrow> if Created old < Created img then Some img else match)
      else match)"



text \<open>
  \<open>latestFirst ms m\<close>: \<open>m\<close> occurs in \<open>ms\<close>, everything before this occurrence was created
  strictly earlier and nothing after it was created later: \<open>m\<close> is the first of the
  latest elements of \<open>ms\<close>.
\<close>

definition latestFirst :: "Image list \<Rightarrow> Image \<Rightarrow> bool" where
  "latestFirst ms m \<longleftrightarrow>
     (\<exists>pre post. ms = pre @ m # post \<and> (\<forall>x \<in> set pre. Created x < Created m) \<and>
        (\<forall>x \<in> set post. Created x \<le> Created m))"


text \<open>
  \<open>reach s t\<close>: the session and world \<open>t\<close> come from \<open>s\<close> by operations of this file,
  in any number and order, with any arguments and any answers of the collaborators:
  \<^verbatim>\<open>probeCache\<close>, \<^verbatim>\<open>runDockerfile\<close>, \<^verbatim>\<open>addLabels\<close>, \<^verbatim>\<open>temporaryCmd\<close> and
  \<^verbatim>\<open>temporaryConfig\<close> (whose mutator is itself made of such operations), the functions
  these two return (from whichever session they were created in),
  \<^verbatim>\<open>makeExportsContainer\<close>, \<^verbatim>\<open>ensureImage\<close>, \<^verbatim>\<open>pushImage\<close> and \<^verbatim>\<open>checkDockerignore\<close>.
\<close>

inductive reach :: "Builder \<times> World \<Rightarrow> Builder \<times> World \<Rightarrow> bool" where
  here: "reach s s"
| probe: "reach s t \<Longrightarrow> reach s (snd (probeCache env sched t))"
| run: "reach s t \<Longrightarrow> reach s (snd (runDockerfile env t))"
| labels: "reach s (b, w) \<Longrightarrow> reach s (addLabels ls b, w)"
| tmpCmd: "reach s (b, w) \<Longrightarrow> reach s (snd (temporaryCmd cmd b), w)"
| endCmd: "reach s (b, w) \<Longrightarrow> reach s (fst (temporaryCmd cmd b0) b, w)"
| tmpConfig: "reach s t \<Longrightarrow> reach t (fn t) \<Longrightarrow> reach s (snd (temporaryConfig fn t))"
| endConfig: "reach s (b, w) \<Longrightarrow> reach s (fst (temporaryConfig fn t0) b, w)"
| exports: "reach s t \<Longrightarrow> reach s (snd (makeExportsContainer env t))"
| ensure: "reach s (b, w) \<Longrightarrow> reach s (b, snd (ensureImage env name purpose b w))"
| push: "reach s (b, w) \<Longrightarrow> reach s (b, snd (pushImage env nm b w))"
| dockerignore: "reach s t \<Longrightarrow> reach s (snd (checkDockerignore env t))"

text \<open>A message of an inspection goroutine that carries an image, not an error.\<close>

definition isImage :: "error + Image \<Rightarrow> bool" where
  "isImage m = (case m of Inl _ \<Rightarrow> False | Inr _ \<Rightarrow> True)"

text \<open>
  The spec's wording of the success pattern, for comparison with \<open>FindStringSubmatch\<close>:
  the text holds a 12-character hexadecimal token.
\<close>

definition hexChar :: "char \<Rightarrow> bool" where
  "hexChar c \<longleftrightarrow>
     (let n = (of_char c :: nat)
      in (48 \<le> n \<and> n \<le> 57) \<or> (97 \<le> n \<and> n \<le> 102) \<or> (65 \<le> n \<and> n \<le> 70))"

fun specHexToken :: "string \<Rightarrow> bool" where
  "specHexToken [] = False"
| "specHexToken (c # cs) =
     ((length (take 12 (c # cs)) = 12 \<and> list_all hexChar (take 12 (c # cs))) \<or> specHexToken cs)"

text \<open>A call that asks the engine to ensure a container.\<close>

definition isEnsure :: "call \<Rightarrow> bool" where
  "isEnsure c = (case c of EnsureContainerCall n cfg p \<Rightarrow> True | _ \<Rightarrow> False)"

section \<open>A sample session and engine\<close>

definition exampleConfig :: ConfigV where
  "exampleConfig = \<lparr>Cmd = [''sh''], Image = ''base'', Labels = None, Volumes = None\<rparr>"

definition otherConfig :: ConfigV where
  "otherConfig = \<lparr>Cmd = [''make''], Image = ''base'', Labels = None, Volumes = None\<rparr>"

definition imageA :: Image where
  "imageA = \<lparr>ID = ''a'', Created = 1, ContainerConfig = otherConfig, imageConfig = otherConfig\<rparr>"

definition imageB :: Image where
  "imageB = \<lparr>ID = ''b'', Created = 5, ContainerConfig = exampleConfig, imageConfig = exampleConfig\<rparr>"

definition imageC :: Image where
  "imageC = \<lparr>ID = ''c'', Created = 5, ContainerConfig = exampleConfig, imageConfig = exampleConfig\<rparr>"

definition exampleEnv :: Env where
  "exampleEnv =
     \<lparr>ListImages = Inr [\<lparr>apiID = ''a'', ParentID = ''parent''\<rparr>,
                         \<lparr>apiID = ''x'', ParentID = ''other''\<rparr>,
                         \<lparr>apiID = ''b'', ParentID = ''parent''\<rparr>,
                         \<lparr>apiID = ''c'', ParentID = ''parent''\<rparr>],
      InspectImage = (\<lambda>sid. if sid = ''a'' then Inr imageA
                             else if sid = ''b'' then Inr imageB
                             else if sid = ''c'' then Inr imageC
                             else Inl (Error ''no such image'')),
      BuildImage = (\<lambda>opts. (''Successfully built cccccccccccc'', None)),
      PullImage = (\<lambda>opts auth. ([], None)),
      PushImage = (\<lambda>opts auth. ([], None)),
      DisplayJSONMessagesStream = (\<lambda>out. None),
      WriteFile = (\<lambda>p content. None),
      pathJoin = (\<lambda>dir file. dir @ ''/'' @ file),
      CompareConfigs = (\<lambda>x y. Cmd x = Cmd y \<and> Image x = Image y),
      RockerfileAstToString = (\<lambda>nodes. Inr (concat (map Value nodes))),
      dockerfileName = ''.rockertmp_Dockerfile'',
      getTmpPrefix = ''.rockertmp'',
      rockerfileRelativePath = ''Rockerfile'',
      StatNotExist = (\<lambda>p. True),
      Open = (\<lambda>p. Inl (Error ''no such file or directory'')),
      NewFromString = (\<lambda>n. \<lparr>Registry = [], Name = n, Tag = ''latest''\<rparr>),
      NameWithRegistry = Name,
      GetTag = Tag,
      String = (\<lambda>n. Name n @ '':'' @ Tag n),
      ensureContainer = (\<lambda>n c p. Inr \<lparr>Container_ID = ''e1''\<rparr>),
      exportsContainerName = ''rocker_exports'',
      rsyncImage = ''rsync'',
      exportsVolume = ''/.rocker_exports''\<rparr>"

definition exampleBuilder :: Builder where
  "exampleBuilder =
     \<lparr>imageID = ''parent'',
      Config = \<lparr>Cmd = [''sh''], Image = ''base'', Labels = Some 0, Volumes = None\<rparr>,
      dockerfile = [],
      UtilizeCache = True,
      cacheBusted = False,
      exportsContainerID = [],
      mounts = [],
      allMounts = [],
      Rockerfile = ''Rockerfile'',
      ContextDir = ''/ctx'',
      Auth = \<lparr>Username = ''u'', Password = ''p''\<rparr>,
      gitIgnored = False,
      labelStore = [0 \<mapsto> [''a'' \<mapsto> ''1'']],
      volumeStore = Map.empty,
      nextRef = 1\<rparr>"

definition exampleWorld :: World where
  "exampleWorld = \<lparr>calls = [], clock = 0\<rparr>"


text \<open>The same engine, except that inspecting candidate \<^verbatim>\<open>b\<close> fails.\<close>

definition failingEnv :: Env where
  "failingEnv =
     exampleEnv\<lparr>InspectImage :=
       (\<lambda>sid. if sid = ''b'' then Inl (Error ''boom'') else InspectImage exampleEnv sid)\<rparr>"

text \<open>
  Sessions that are already cache-busted, that do not use the cache, and whose current
  image has no child image.
\<close>

definition bustedBuilder :: Builder where
  "bustedBuilder = exampleBuilder\<lparr>cacheBusted := True\<rparr>"

definition uncachedBuilder :: Builder where
  "uncachedBuilder = exampleBuilder\<lparr>UtilizeCache := False\<rparr>"

definition orphanBuilder :: Builder where
  "orphanBuilder = exampleBuilder\<lparr>imageID := ''x''\<rparr>"

text \<open>
  A session with one pending \<^verbatim>\<open>run\<close> instruction, what \<open>normalizeChildren\<close> makes of it, an
  engine whose build output names an identifier that is not hexadecimal, and one whose
  build output names none.
\<close>

definition pendingBuilder :: Builder where
  "pendingBuilder = exampleBuilder\<lparr>dockerfile := [Node ''run'' (Some (Node ''make'' None))]\<rparr>"

definition alnumEnv :: Env where
  "alnumEnv =
     exampleEnv\<lparr>BuildImage := (\<lambda>opts. (''Successfully built zzzzzzzzzzzz'', None)),
                InspectImage := (\<lambda>sid. if sid = ''zzzzzzzzzzzz'' then Inr imageC
                                       else Inl (Error ''no such image''))\<rparr>"

definition preparedBuilder :: Builder where
  "preparedBuilder =
     pendingBuilder\<lparr>dockerfile := [Node ''from'' (Some (Node ''parent'' None)),
                                   Node ''run'' (Some (Node ''make'' None))]\<rparr>"

definition silentEnv :: Env where
  "silentEnv = exampleEnv\<lparr>BuildImage := (\<lambda>opts. (''Step 1 : done'', None))\<rparr>"

text \<open>
  A mutator as \<^verbatim>\<open>temporaryConfig\<close> is given: it adds a label through \<^verbatim>\<open>addLabels\<close>. And an
  engine that knows no image at all.
\<close>

definition labelMutator :: "Builder \<times> World \<Rightarrow> Builder \<times> World" where
  "labelMutator s = (addLabels [''k'' \<mapsto> ''v''] (fst s), snd s)"

definition builtEnv :: Env where
  "builtEnv = exampleEnv\<lparr>InspectImage := (\<lambda>sid. Inl (Error ''no such image''))\<rparr>"

section \<open>The selection made by the collecting loop\<close>

lemma collect_Cons:
  "collect cmp config n ((wait, m) # rest) match k t =
     (if 10 * Second \<le> wait then (Inl timeoutError, t + 10 * Second)
      else case m of
        Inl err \<Rightarrow> (Inl err, t + wait)
      | Inr img \<Rightarrow>
          if n = Suc k then (Inr (keep cmp config match img), t + wait)
          else collect cmp config n rest (keep cmp config match img) (Suc k) (t + wait))"
  by (simp add: keep_def Let_def split: sum.splits)

lemma collect_all_images:
  assumes "\<forall>wait \<in> set waits. wait < 10 * Second"
    and "length waits = length imgs" and "imgs \<noteq> []"
    and "n = k + length imgs"
  shows "collect cmp config n (zip waits (map Inr imgs)) match k t =
           (Inr (foldl (keep cmp config) match imgs), t + sum_list waits)"
  using assms
proof (induction imgs arbitrary: waits match k t)
  case Nil
  then show ?case by simp
next
  case (Cons i imgs)
  then obtain x xs where w: "waits = x # xs" by (cases waits) auto
  show ?case
  proof (cases "imgs = []")
    case True
    with Cons.prems w show ?thesis by (simp add: collect_Cons del: collect.simps(2))
  next
    case False
    have "collect cmp config n (zip xs (map Inr imgs)) (keep cmp config match i) (Suc k) (t + x)
       = (Inr (foldl (keep cmp config) (keep cmp config match i) imgs), t + x + sum_list xs)"
      using Cons.prems w False by (intro Cons.IH) auto
    with Cons.prems w False show ?thesis by (simp add: collect_Cons add.assoc del: collect.simps(2))
  qed
qed

lemma latestFirst_Cons_same:
  "\<forall>x \<in> set ms. Created x \<le> Created m \<Longrightarrow> latestFirst (m # ms) m"
  unfolding latestFirst_def by (rule exI[of _ "[]"]) simp

lemma latestFirst_Cons_other:
  "latestFirst ms m \<Longrightarrow> Created i < Created m \<Longrightarrow> latestFirst (i # ms) m"
  unfolding latestFirst_def
proof (elim exE conjE)
  fix pre post
  assume "ms = pre @ m # post" "\<forall>x\<in>set pre. Created x < Created m"
    "\<forall>x\<in>set post. Created x \<le> Created m" "Created i < Created m"
  then have "i # ms = (i # pre) @ m # post \<and> (\<forall>x\<in>set (i # pre). Created x < Created m) \<and>
     (\<forall>x\<in>set post. Created x \<le> Created m)" by simp
  then show "\<exists>pre post. i # ms = pre @ m # post \<and> (\<forall>x\<in>set pre. Created x < Created m) \<and>
     (\<forall>x\<in>set post. Created x \<le> Created m)" by blast
qed

lemma keep_miss: "\<not> cmp (ContainerConfig i) config \<Longrightarrow> keep cmp config m i = m"
  by (simp add: keep_def)

lemma keep_None: "cmp (ContainerConfig i) config \<Longrightarrow> keep cmp config None i = Some i"
  by (simp add: keep_def)

lemma keep_later:
  "cmp (ContainerConfig i) config \<Longrightarrow> Created old < Created i \<Longrightarrow> keep cmp config (Some old) i = Some i"
  by (simp add: keep_def)

lemma keep_earlier:
  "cmp (ContainerConfig i) config \<Longrightarrow> \<not> Created old < Created i \<Longrightarrow>
     keep cmp config (Some old) i = Some old"
  by (simp add: keep_def)

lemma foldl_keep_charact:
  fixes cmp config
  defines "hit \<equiv> (\<lambda>i. cmp (ContainerConfig i) config)"
  shows "(match = None \<longrightarrow>
            (filter hit imgs = [] \<and> foldl (keep cmp config) match imgs = None) \<or>
            (\<exists>m. foldl (keep cmp config) match imgs = Some m \<and> latestFirst (filter hit imgs) m)) \<and>
         (\<forall>old. match = Some old \<longrightarrow>
            (foldl (keep cmp config) match imgs = Some old \<and>
               (\<forall>x \<in> set (filter hit imgs). Created x \<le> Created old)) \<or>
            (\<exists>m. foldl (keep cmp config) match imgs = Some m \<and> latestFirst (filter hit imgs) m \<and>
               Created old < Created m))"
proof (induction imgs arbitrary: match)
  case Nil
  then show ?case by simp
next
  case (Cons i imgs)
  show ?case
  proof (cases "hit i")
    case False
    with Cons.IH[of match] show ?thesis by (simp add: keep_miss hit_def)
  next
    case True
    show ?thesis
    proof (cases match)
      case None
      from Cons.IH[of "Some i"] None True show ?thesis
        by (auto simp: keep_None hit_def intro!: latestFirst_Cons_same intro: latestFirst_Cons_other)
    next
      case (Some old)
      show ?thesis
      proof (cases "Created old < Created i")
        case lt: True
        from Cons.IH[of "Some i"] Some True lt show ?thesis
          by (auto simp: keep_later hit_def intro!: latestFirst_Cons_same intro: latestFirst_Cons_other)
      next
        case ge: False
        have "latestFirst (i # ms) m" if "latestFirst ms m" "Created old < Created m" for ms m
          using that ge by (intro latestFirst_Cons_other) auto
        with Cons.IH[of match] Some True ge show ?thesis
          by (auto simp: keep_earlier hit_def)
      qed
    qed
  qed
qed


lemma arrivals_zip:
  "map (\<lambda>(wait, sid). (wait, f sid)) sched = zip (map fst sched) (map (f \<circ> snd) sched)"
  by (induction sched) auto

lemma latestFirst_Nil: "\<not> latestFirst [] m"
  by (simp add: latestFirst_def)

lemma latestFirst_single: "latestFirst [x] m \<Longrightarrow> m = x"
  by (auto simp: latestFirst_def Cons_eq_append_conv)

lemma imageGetCached_images:
  assumes "ListImages env = Inr images"
    and "siblingsOf parent images \<noteq> []"
    and "mset (map snd sched) = mset (siblingsOf parent images)"
    and "list_all (\<lambda>(wait, sid). wait < 10 * Second) sched"
    and "map (InspectImage env \<circ> snd) sched = map Inr imgs"
  shows "fst (imageGetCached env sched parent config w) =
           Inr (foldl (keep (CompareConfigs env) config) None imgs)"
proof -
  have len: "length sched = length (siblingsOf parent images)"
    using assms(3) by (metis length_map size_mset)
  have limgs: "length imgs = length sched"
    using assms(5) by (metis length_map)
  have "collect (CompareConfigs env) config (length (siblingsOf parent images))
          (zip (map fst sched) (map Inr imgs)) None 0 0 =
        (Inr (foldl (keep (CompareConfigs env) config) None imgs), 0 + sum_list (map fst sched))"
    using assms(2,4) len limgs
    by (intro collect_all_images) (auto simp: list_all_iff)
  then show ?thesis
    using assms(1,2,5)
    by (simp add: imageGetCached_def Let_def arrivals_zip)
qed

text \<open>
  C3. When every candidate's inspection succeeds and is delivered in time, the prober
  returns a result \<open>r\<close> determined by the candidates whose originating configuration
  \<^verbatim>\<open>CompareConfigs\<close> finds equal to the probed one, taken in the order they were received
  (\<open>ms\<close>): with no such candidate there is no hit; with exactly one, it is selected; with
  two or more, the selected one has the latest creation time, and among candidates with
  that same creation time it is the one received first.
\<close>

theorem imageGetCached_selects_latest:
  assumes "ListImages env = Inr images"
    and "siblingsOf parent images \<noteq> []"
    and "mset (map snd sched) = mset (siblingsOf parent images)"
    and "list_all (\<lambda>(wait, sid). wait < 10 * Second) sched"
    and "map (InspectImage env \<circ> snd) sched = map Inr imgs"
    and "ms = filter (\<lambda>i. CompareConfigs env (ContainerConfig i) config) imgs"
  shows "\<exists>r. fst (imageGetCached env sched parent config w) = Inr r \<and>
           (ms = [] \<longrightarrow> r = None) \<and>
           (\<forall>m. ms = [m] \<longrightarrow> r = Some m) \<and>
           (2 \<le> length ms \<longrightarrow> (\<exists>m. r = Some m \<and> latestFirst ms m))"
proof -
  let ?r = "foldl (keep (CompareConfigs env) config) None imgs"
  have r: "fst (imageGetCached env sched parent config w) = Inr ?r"
    using assms(1-5) by (rule imageGetCached_images)
  have c: "(ms = [] \<and> ?r = None) \<or> (\<exists>m. ?r = Some m \<and> latestFirst ms m)"
    using foldl_keep_charact [of None "CompareConfigs env" config imgs] assms(6) by simp
  have "(ms = [] \<longrightarrow> ?r = None) \<and> (\<forall>m. ms = [m] \<longrightarrow> ?r = Some m) \<and>
        (2 \<le> length ms \<longrightarrow> (\<exists>m. ?r = Some m \<and> latestFirst ms m))"
    using c by (auto simp: latestFirst_Nil dest: latestFirst_single)
  with r show ?thesis by blast
qed

theorem imageGetCached_selects_latest_witness:
  "ListImages exampleEnv = Inr [\<lparr>apiID = ''a'', ParentID = ''parent''\<rparr>,
                         \<lparr>apiID = ''x'', ParentID = ''other''\<rparr>,
                         \<lparr>apiID = ''b'', ParentID = ''parent''\<rparr>,
                         \<lparr>apiID = ''c'', ParentID = ''parent''\<rparr>] \<and>
   fst (imageGetCached exampleEnv [(1, ''a''), (2, ''c''), (3, ''b'')] ''parent'' exampleConfig
          exampleWorld) = Inr (Some imageC) \<and>
   latestFirst [imageC, imageB] imageC \<and> \<not> latestFirst [imageC, imageB] imageB"
proof -
  let ?images = "[\<lparr>apiID = ''a'', ParentID = ''parent''\<rparr>,
                         \<lparr>apiID = ''x'', ParentID = ''other''\<rparr>,
                         \<lparr>apiID = ''b'', ParentID = ''parent''\<rparr>,
                         \<lparr>apiID = ''c'', ParentID = ''parent''\<rparr>]"
  let ?sched = "[(1::nat, ''a''), (2, ''c''), (3, ''b'')]"
  have h1: "ListImages exampleEnv = Inr ?images" by (simp add: exampleEnv_def)
  have h2: "siblingsOf ''parent'' ?images \<noteq> []" by (simp add: siblingsOf_def)
  have h3: "mset (map snd ?sched) = mset (siblingsOf ''parent'' ?images)"
    by (simp add: siblingsOf_def)
  have h4: "list_all (\<lambda>(wait, sid). wait < 10 * Second) ?sched" by (simp add: Second_def)
  have h5: "map (InspectImage exampleEnv \<circ> snd) ?sched = map Inr [imageA, imageC, imageB]"
    by (simp add: exampleEnv_def)
  have h6: "[imageC, imageB] =
      filter (\<lambda>i. CompareConfigs exampleEnv (ContainerConfig i) exampleConfig) [imageA, imageC, imageB]"
    by (simp add: exampleEnv_def imageA_def imageB_def imageC_def exampleConfig_def otherConfig_def)
  have nb: "\<not> latestFirst [imageC, imageB] imageB"
    by (auto simp: latestFirst_def Cons_eq_append_conv imageB_def imageC_def)
  have yc: "latestFirst [imageC, imageB] imageC"
    unfolding latestFirst_def by (rule exI[of _ "[]"]) (simp add: imageB_def imageC_def)
  from imageGetCached_selects_latest [OF h1 h2 h3 h4 h5 h6, of exampleWorld]
  obtain r where r: "fst (imageGetCached exampleEnv ?sched ''parent'' exampleConfig exampleWorld) = Inr r"
    and l: "\<exists>m. r = Some m \<and> latestFirst [imageC, imageB] m" by auto
  from l obtain m where m: "r = Some m" "latestFirst [imageC, imageB] m" by blast
  then have "m = imageC \<or> m = imageB" by (auto simp: latestFirst_def Cons_eq_append_conv)
  with m nb have "r = Some imageC" by auto
  with r h1 yc nb show ?thesis by simp
qed

section \<open>A failing inspection\<close>







section \<open>The timeout of the collecting loop\<close>

lemma collect_clock_bound:
  "k < n \<Longrightarrow> snd (collect cmp config n arrivals match k t) \<le> t + (n - k) * (10 * Second)"
proof (induction arrivals arbitrary: match k t)
  case Nil
  then have "1 \<le> n - k" by simp
  then have "1 * (10 * Second) \<le> (n - k) * (10 * Second)" by (rule mult_le_mono1)
  then show ?case by simp
next
  case (Cons a arrivals)
  obtain wait m where a: "a = (wait, m)" by (cases a)
  from Cons.prems have "1 \<le> n - k" by simp
  then have "1 * (10 * Second) \<le> (n - k) * (10 * Second)" by (rule mult_le_mono1)
  then have one: "10 * Second \<le> (n - k) * (10 * Second)" by simp
  show ?case
  proof (cases "10 * Second \<le> wait")
    case True
    with one a show ?thesis by (simp add: collect_Cons del: collect.simps(2))
  next
    case late: False
    with one have wle: "wait \<le> (n - k) * (10 * Second)"
      by (meson le_trans nat_le_linear)
    show ?thesis
    proof (cases m)
      case (Inl err)
      with late wle a show ?thesis by (simp add: collect_Cons del: collect.simps(2))
    next
      case (Inr img)
      show ?thesis
      proof (cases "n = Suc k")
        case True
        with late wle a Inr show ?thesis by (simp add: collect_Cons del: collect.simps(2))
      next
        case False
        with Cons.prems have lt: "Suc k < n" by simp
        have "snd (collect cmp config n arrivals (keep cmp config match img) (Suc k) (t + wait))
                \<le> (t + wait) + (n - Suc k) * (10 * Second)"
          by (rule Cons.IH [OF lt])
        also have "\<dots> \<le> t + 10 * Second + (n - Suc k) * (10 * Second)" using late by simp
        also have "\<dots> = t + (n - k) * (10 * Second)"
        proof -
          have "n - k = Suc (n - Suc k)" using lt by simp
          then show ?thesis by simp
        qed
        finally show ?thesis using late a Inr False by (simp add: collect_Cons del: collect.simps(2))
      qed
    qed
  qed
qed

lemma collect_timeout:
  assumes "list_all (\<lambda>(wait, m). wait < 10 * Second \<and> isImage m) pre"
    and "10 * Second \<le> wait" and "k + length pre < n"
  shows "fst (collect cmp config n (pre @ (wait, m) # post) match k t) = Inl timeoutError"
  using assms
proof (induction pre arbitrary: match k t)
  case Nil
  then show ?case by (simp add: collect_Cons del: collect.simps(2))
next
  case (Cons a pre)
  obtain w x where a: "a = (w, x)" by (cases a)
  with Cons.prems obtain img where x: "x = Inr img" by (cases x) (auto simp: isImage_def)
  have "fst (collect cmp config n (pre @ (wait, m) # post) (keep cmp config match img) (Suc k) (t + w))
          = Inl timeoutError"
    using Cons.prems by (intro Cons.IH) auto
  with Cons.prems a x show ?case by (simp add: collect_Cons del: collect.simps(2))
qed

text \<open>
  C1, as amended. The ten seconds bound every single wait of the collecting loop, not
  the fan-out as a whole: the prober fails with the timeout error as soon as one wait
  reaches ten seconds (counted from the start of that wait), and the time one call
  spends waiting is at most ten seconds for each candidate.
\<close>

theorem imageGetCached_timeout_per_wait:
  assumes "ListImages env = Inr images"
  shows "clock (snd (imageGetCached env sched parent config w))
           \<le> clock w + length (siblingsOf parent images) * (10 * Second) \<and>
         (\<forall>pre wait sid post.
            sched = pre @ (wait, sid) # post \<and> length pre < length (siblingsOf parent images) \<and>
            list_all (\<lambda>(t, s). t < 10 * Second \<and> isImage (InspectImage env s)) pre \<and>
            10 * Second \<le> wait
            \<longrightarrow> fst (imageGetCached env sched parent config w) = Inl timeoutError)"
proof (cases "siblingsOf parent images = []")
  case True
  with assms show ?thesis by (simp add: imageGetCached_def Let_def)
next
  case ne: False
  let ?sib = "siblingsOf parent images"
  let ?arr = "map (\<lambda>(wait, s). (wait, InspectImage env s)) sched"
  let ?c = "collect (CompareConfigs env) config (length ?sib) ?arr None 0 0"
  have res: "fst (imageGetCached env sched parent config w) = fst ?c"
    using assms ne by (simp add: imageGetCached_def Let_def split: prod.splits)
  have clk: "clock (snd (imageGetCached env sched parent config w)) = clock w + snd ?c"
    using assms ne by (simp add: imageGetCached_def Let_def split: prod.splits)
  have "snd ?c \<le> 0 + (length ?sib - 0) * (10 * Second)"
    using ne by (intro collect_clock_bound) simp
  with clk have part1: "clock (snd (imageGetCached env sched parent config w))
           \<le> clock w + length ?sib * (10 * Second)" by simp
  have part2: "fst (imageGetCached env sched parent config w) = Inl timeoutError"
    if s: "sched = pre @ (wait, sid) # post" and len: "length pre < length ?sib"
      and pr: "list_all (\<lambda>(t, s). t < 10 * Second \<and> isImage (InspectImage env s)) pre"
      and wt: "10 * Second \<le> wait"
    for pre wait sid post
  proof -
    let ?pre = "map (\<lambda>(wait, s). (wait, InspectImage env s)) pre"
    let ?post = "map (\<lambda>(wait, s). (wait, InspectImage env s)) post"
    have arr: "?arr = ?pre @ (wait, InspectImage env sid) # ?post" using s by simp
    have p: "list_all (\<lambda>(wait, m). wait < 10 * Second \<and> isImage m) ?pre"
      using pr by (auto simp: list_all_iff)
    have "0 + length ?pre < length ?sib" using len by simp
    from collect_timeout [OF p wt this] show ?thesis unfolding res arr .
  qed
  from part1 part2 show ?thesis by blast
qed

theorem imageGetCached_timeout_per_wait_witness:
  "ListImages exampleEnv = Inr [\<lparr>apiID = ''a'', ParentID = ''parent''\<rparr>,
                  \<lparr>apiID = ''x'', ParentID = ''other''\<rparr>,
                  \<lparr>apiID = ''b'', ParentID = ''parent''\<rparr>,
                  \<lparr>apiID = ''c'', ParentID = ''parent''\<rparr>] \<and>
   fst (imageGetCached exampleEnv [(9 * Second, ''a''), (10 * Second, ''c''), (1, ''b'')] ''parent''
          exampleConfig exampleWorld) = Inl timeoutError \<and>
   clock (snd (imageGetCached exampleEnv [(9 * Second, ''a''), (10 * Second, ''c''), (1, ''b'')]
          ''parent'' exampleConfig exampleWorld)) \<le> clock exampleWorld + 3 * (10 * Second)"
proof -
  let ?images = "[\<lparr>apiID = ''a'', ParentID = ''parent''\<rparr>,
                  \<lparr>apiID = ''x'', ParentID = ''other''\<rparr>,
                  \<lparr>apiID = ''b'', ParentID = ''parent''\<rparr>,
                  \<lparr>apiID = ''c'', ParentID = ''parent''\<rparr>]"
  let ?sched = "[(9 * Second, ''a''), (10 * Second, ''c''), (1, ''b'')]"
  have h1: "ListImages exampleEnv = Inr ?images" by (simp add: exampleEnv_def)
  have len: "length (siblingsOf ''parent'' ?images) = 3" by (simp add: siblingsOf_def)
  have h2: "?sched = [(9 * Second, ''a'')] @ (10 * Second, ''c'') # [(1, ''b'')] \<and>
      length [(9 * Second, ''a'')] < length (siblingsOf ''parent'' ?images) \<and>
      list_all (\<lambda>(t, s). t < 10 * Second \<and> isImage (InspectImage exampleEnv s)) [(9 * Second, ''a'')] \<and>
      10 * Second \<le> 10 * Second"
    by (simp add: Second_def exampleEnv_def isImage_def siblingsOf_def)
  from imageGetCached_timeout_per_wait [OF h1, of ?sched "''parent''" exampleConfig exampleWorld] h2
  have "fst (imageGetCached exampleEnv ?sched ''parent'' exampleConfig exampleWorld) = Inl timeoutError"
    and "clock (snd (imageGetCached exampleEnv ?sched ''parent'' exampleConfig exampleWorld))
           \<le> clock exampleWorld + length (siblingsOf ''parent'' ?images) * (10 * Second)"
    by blast+
  with h1 len show ?thesis by simp
qed

text \<open>
  C1, as stated, fails: three candidates delivered nine seconds apart are all collected;
  the call waits 27 seconds, more than ten, and returns a hit, not the timeout error.
\<close>

theorem imageGetCached_whole_fanout_counterexample:
  "fst (imageGetCached exampleEnv [(9 * Second, ''a''), (9 * Second, ''c''), (9 * Second, ''b'')]
          ''parent'' exampleConfig exampleWorld) = Inr (Some imageC) \<and>
   clock (snd (imageGetCached exampleEnv [(9 * Second, ''a''), (9 * Second, ''c''), (9 * Second, ''b'')]
          ''parent'' exampleConfig exampleWorld)) = clock exampleWorld + 27 * Second \<and>
   10 * Second < 27 * Second"
  by (simp add: imageGetCached_def exampleEnv_def siblingsOf_def Second_def imageA_def imageB_def
      imageC_def exampleConfig_def otherConfig_def exampleWorld_def)

section \<open>The cache-busted flag\<close>

lemma probeCache_skips:
  "\<not> UtilizeCache b \<or> cacheBusted b \<Longrightarrow> probeCache env sched (b, w) = ((False, None), b, w)"
  by (simp add: probeCache_def)

lemma probeCache_cacheBusted:
  "cacheBusted b \<Longrightarrow> cacheBusted (fst (snd (probeCache env sched (b, w))))"
  by (simp add: probeCache_skips)

lemma setConfig_cacheBusted: "cacheBusted (setConfig cv b) = cacheBusted b"
  by (simp add: setConfig_def)

lemma normalizeChildren_cacheBusted:
  "normalizeChildren c b = Inl (r, b1) \<Longrightarrow> cacheBusted b1 = cacheBusted b"
  "normalizeChildren c b = Inr b2 \<Longrightarrow> cacheBusted b2 = cacheBusted b"
  by (auto simp: normalizeChildren_def Let_def split: if_splits)

lemma runDockerfile_cacheBusted:
  "cacheBusted (fst (snd (runDockerfile env (b, w)))) = cacheBusted b"
  by (auto simp: runDockerfile_def Let_def setConfig_cacheBusted
      dest: normalizeChildren_cacheBusted
      split: list.splits sum.splits prod.splits option.splits)

lemma addLabels_cacheBusted: "cacheBusted (addLabels ls b) = cacheBusted b"
  by (simp add: addLabels_def Let_def split: option.splits)

lemma makeExportsContainer_cacheBusted:
  "cacheBusted (fst (snd (makeExportsContainer env (b, w)))) = cacheBusted b"
  by (simp add: makeExportsContainer_def Let_def split: sum.splits)

lemma checkDockerignore_cacheBusted:
  "cacheBusted (fst (snd (checkDockerignore env (b, w)))) = cacheBusted b"
  by (simp add: checkDockerignore_def Let_def split: sum.splits prod.splits option.splits)

lemma reach_cacheBusted:
  "reach s t \<Longrightarrow> cacheBusted (fst s) \<Longrightarrow> cacheBusted (fst t)"
proof (induction rule: reach.induct)
  case (here s)
  then show ?case by simp
next
  case (probe s t env sched)
  then show ?case using probeCache_cacheBusted [of "fst t" env sched "snd t"] by simp
next
  case (run s t env)
  then show ?case using runDockerfile_cacheBusted [of env "fst t" "snd t"] by simp
next
  case (labels s b w ls)
  then show ?case by (simp add: addLabels_cacheBusted)
next
  case (tmpCmd s b w cmd)
  then show ?case by (simp add: temporaryCmd_def Let_def)
next
  case (endCmd s b w cmd b0)
  then show ?case by (simp add: temporaryCmd_def Let_def)
next
  case (tmpConfig s t fn)
  then show ?case by (simp add: temporaryConfig_def Let_def)
next
  case (endConfig s b w fn t0)
  then show ?case by (simp add: temporaryConfig_def Let_def)
next
  case (exports s t env)
  then show ?case using makeExportsContainer_cacheBusted [of env "fst t" "snd t"] by simp
next
  case (ensure s b w env name purpose)
  then show ?case by simp
next
  case (push s b w env nm)
  then show ?case by simp
next
  case (dockerignore s t env)
  then show ?case using checkDockerignore_cacheBusted [of env "fst t" "snd t"] by simp
qed

text \<open>
  C4. Once \<^verbatim>\<open>cacheBusted\<close> is set, it stays set through every later operation, and
  \<^verbatim>\<open>probeCache\<close> then returns \<^verbatim>\<open>(false, nil)\<close> with the session and the world as they
  were: no engine call is issued. The same holds whenever the session does not use the
  cache.
\<close>

theorem cacheBusted_sticky:
  "(reach s t \<and> cacheBusted (fst s) \<longrightarrow>
      cacheBusted (fst t) \<and> probeCache env sched t = ((False, None), t)) \<and>
   (\<not> UtilizeCache (fst t) \<longrightarrow> probeCache env sched t = ((False, None), t))"
  using reach_cacheBusted [of s t] probeCache_skips [of "fst t" env sched "snd t"]
  by auto

theorem cacheBusted_sticky_witness:
  "fst (snd (probeCache exampleEnv [] (orphanBuilder, exampleWorld))) = bustedBuilder\<lparr>imageID := ''x''\<rparr> \<and>
   probeCache exampleEnv [(1, ''a''), (2, ''c''), (3, ''b'')]
     (snd (runDockerfile failingEnv
        (addLabels [''k'' \<mapsto> ''v''] (fst (snd (probeCache exampleEnv [] (orphanBuilder, exampleWorld)))),
         snd (snd (probeCache exampleEnv [] (orphanBuilder, exampleWorld))))))
    = ((False, None),
       snd (runDockerfile failingEnv
        (addLabels [''k'' \<mapsto> ''v''] (fst (snd (probeCache exampleEnv [] (orphanBuilder, exampleWorld)))),
         snd (snd (probeCache exampleEnv [] (orphanBuilder, exampleWorld)))))) \<and>
   \<not> UtilizeCache uncachedBuilder \<and>
   probeCache exampleEnv [(1, ''a''), (2, ''c''), (3, ''b'')] (uncachedBuilder, exampleWorld)
    = ((False, None), uncachedBuilder, exampleWorld)"
proof -
  let ?s = "snd (probeCache exampleEnv [] (orphanBuilder, exampleWorld))"
  let ?t = "snd (runDockerfile failingEnv (addLabels [''k'' \<mapsto> ''v''] (fst ?s), snd ?s))"
  let ?sched = "[(1::nat, ''a''), (2, ''c''), (3, ''b'')]"
  have s: "fst ?s = bustedBuilder\<lparr>imageID := ''x''\<rparr>"
    by (simp add: probeCache_def orphanBuilder_def exampleBuilder_def bustedBuilder_def
        imageGetCached_def exampleEnv_def siblingsOf_def)
  then have busted: "cacheBusted (fst ?s)" by (simp add: bustedBuilder_def)
  have "reach ?s (fst ?s, snd ?s)" by (simp add: reach.here)
  then have "reach ?s (addLabels [''k'' \<mapsto> ''v''] (fst ?s), snd ?s)" by (rule reach.labels)
  then have r: "reach ?s ?t" by (rule reach.run)
  have u: "\<not> UtilizeCache (fst (uncachedBuilder, exampleWorld))"
    by (simp add: uncachedBuilder_def exampleBuilder_def)
  from cacheBusted_sticky [of ?s ?t exampleEnv ?sched] r busted
  have 1: "probeCache exampleEnv ?sched ?t = ((False, None), ?t)" by blast
  from cacheBusted_sticky [of ?s "(uncachedBuilder, exampleWorld)" exampleEnv ?sched] u
  have 2: "probeCache exampleEnv ?sched (uncachedBuilder, exampleWorld)
             = ((False, None), uncachedBuilder, exampleWorld)" by blast
  from s 1 2 u show ?thesis by simp
qed

text \<open>
  C10. Whenever \<^verbatim>\<open>probeCache\<close> returns an error, it is the error of \<^verbatim>\<open>imageGetCached\<close>
  (list-images, an inspection, or the timeout), the hit flag is false and the session is
  exactly as before, so \<^verbatim>\<open>cacheBusted\<close> is still false and the image identity is the same.
  \<^verbatim>\<open>cacheBusted\<close> becomes true only on a miss: \<^verbatim>\<open>imageGetCached\<close> returned no image and
  no error, the call returns \<^verbatim>\<open>(false, nil)\<close> and changes nothing else.
\<close>

theorem probeCache_error_leaves_session:
  "(\<forall>hit err b' w'. probeCache env sched (b, w) = ((hit, Some err), b', w') \<longrightarrow>
      hit = False \<and> b' = b \<and> \<not> cacheBusted b' \<and>
      fst (imageGetCached env sched (imageID b) (configValue b (Config b)) w) = Inl err) \<and>
   (\<forall>r b' w'. probeCache env sched (b, w) = (r, b', w') \<and> \<not> cacheBusted b \<and> cacheBusted b' \<longrightarrow>
      r = (False, None) \<and> b' = b\<lparr>cacheBusted := True\<rparr> \<and>
      fst (imageGetCached env sched (imageID b) (configValue b (Config b)) w) = Inr None)"
  by (auto simp: probeCache_def split: if_splits prod.splits sum.splits option.splits)

theorem probeCache_error_leaves_session_witness:
  "probeCache failingEnv [(1, ''c''), (2, ''b''), (3, ''a'')] (exampleBuilder, exampleWorld) =
     ((False, Some (Error ''boom'')), exampleBuilder,
      snd (snd (probeCache failingEnv [(1, ''c''), (2, ''b''), (3, ''a'')] (exampleBuilder, exampleWorld)))) \<and>
   \<not> cacheBusted exampleBuilder \<and>
   \<not> cacheBusted orphanBuilder \<and>
   probeCache exampleEnv [] (orphanBuilder, exampleWorld) =
     ((False, None), orphanBuilder\<lparr>cacheBusted := True\<rparr>,
      snd (snd (probeCache exampleEnv [] (orphanBuilder, exampleWorld))))"
proof -
  let ?sched = "[(1::nat, ''c''), (2, ''b''), (3, ''a'')]"
  let ?p = "probeCache failingEnv ?sched (exampleBuilder, exampleWorld)"
  let ?q = "probeCache exampleEnv [] (orphanBuilder, exampleWorld)"
  have e: "fst ?p = (False, Some (Error ''boom''))"
    by (simp add: probeCache_def imageGetCached_def failingEnv_def exampleEnv_def siblingsOf_def
        exampleBuilder_def Second_def imageC_def configValue_def exampleConfig_def)
  then have "?p = ((fst (fst ?p), Some (Error ''boom'')), fst (snd ?p), snd (snd ?p))"
    by (metis prod.collapse snd_conv)
  with probeCache_error_leaves_session [of failingEnv ?sched exampleBuilder exampleWorld]
  have 1: "fst (snd ?p) = exampleBuilder" "\<not> cacheBusted (fst (snd ?p))" by blast+
  have nb: "\<not> cacheBusted orphanBuilder" by (simp add: orphanBuilder_def exampleBuilder_def)
  have cb: "cacheBusted (fst (snd ?q))"
    by (simp add: probeCache_def orphanBuilder_def exampleBuilder_def
        imageGetCached_def exampleEnv_def siblingsOf_def)
  have "?q = (fst ?q, fst (snd ?q), snd (snd ?q))" by simp
  with probeCache_error_leaves_session [of exampleEnv "[]" orphanBuilder exampleWorld] nb cb
  have 2: "fst ?q = (False, None)" "fst (snd ?q) = orphanBuilder\<lparr>cacheBusted := True\<rparr>" by blast+
  have "?p = (fst ?p, fst (snd ?p), snd (snd ?p))" by simp
  with e 1 have p: "?p = ((False, Some (Error ''boom'')), exampleBuilder, snd (snd ?p))" by simp
  have "?q = (fst ?q, fst (snd ?q), snd (snd ?q))" by simp
  with 2 have q: "?q = ((False, None), orphanBuilder\<lparr>cacheBusted := True\<rparr>, snd (snd ?q))" by simp
  from p q 1 nb show ?thesis by simp
qed

section \<open>The image identifier in the build output\<close>

lemma if_Some_eq: "(if C then Some x else None) = Some y \<longleftrightarrow> C \<and> x = y"
  by simp

lemma split_at_literal:
  "take (length lit) s = lit \<Longrightarrow> s = lit @ take n (drop (length lit) s) @ drop n (drop (length lit) s)"
  by (metis append_take_drop_id)

lemma matchHere_iff:
  "matchHere s = Some tok \<longleftrightarrow>
     (\<exists>post. s = ''Successfully built '' @ tok @ post \<and> length tok = 12 \<and> list_all idChar tok)"
proof
  assume m: "matchHere s = Some tok"
  let ?lit = "''Successfully built ''"
  from m have c: "take (length ?lit) s = ?lit \<and> length (take 12 (drop (length ?lit) s)) = 12 \<and>
      list_all idChar (take 12 (drop (length ?lit) s))"
    and t: "take 12 (drop (length ?lit) s) = tok"
    unfolding matchHere_def Let_def if_Some_eq by blast+
  from c have "s = ?lit @ take 12 (drop (length ?lit) s) @ drop 12 (drop (length ?lit) s)"
    by (intro split_at_literal) blast
  with t have "s = ?lit @ tok @ drop 12 (drop (length ?lit) s)" by (simp only:)
  moreover from c t have "length tok = 12 \<and> list_all idChar tok" by (simp only:)
  ultimately show "\<exists>post. s = ?lit @ tok @ post \<and> length tok = 12 \<and> list_all idChar tok" by blast
next
  assume "\<exists>post. s = ''Successfully built '' @ tok @ post \<and> length tok = 12 \<and> list_all idChar tok"
  then show "matchHere s = Some tok" by (auto simp: matchHere_def Let_def)
qed

lemma FindStringSubmatch_Nil_iff:
  "FindStringSubmatch s = [] \<longleftrightarrow> (\<forall>n. matchHere (drop n s) = None)"
proof (induction s)
  case Nil
  then show ?case by (simp add: matchHere_def)
next
  case (Cons c cs)
  have "(\<forall>n. matchHere (drop n (c # cs)) = None) \<longleftrightarrow>
        matchHere (c # cs) = None \<and> (\<forall>n. matchHere (drop n cs) = None)"
  proof
    assume h: "\<forall>n. matchHere (drop n (c # cs)) = None"
    have "matchHere (drop 0 (c # cs)) = None" using h by blast
    moreover have "matchHere (drop n cs) = None" for n using h [rule_format, of "Suc n"] by simp
    ultimately show "matchHere (c # cs) = None \<and> (\<forall>n. matchHere (drop n cs) = None)" by simp
  next
    assume h: "matchHere (c # cs) = None \<and> (\<forall>n. matchHere (drop n cs) = None)"
    show "\<forall>n. matchHere (drop n (c # cs)) = None"
    proof
      fix n show "matchHere (drop n (c # cs)) = None" using h by (cases n) auto
    qed
  qed
  with Cons.IH show ?case by (auto split: option.splits)
qed

lemma FindStringSubmatch_leftmost:
  "FindStringSubmatch s \<noteq> [] \<Longrightarrow>
     \<exists>n tok. matchHere (drop n s) = Some tok \<and> (\<forall>k<n. matchHere (drop k s) = None) \<and>
       FindStringSubmatch s = [''Successfully built '' @ tok, tok]"
proof (induction s)
  case Nil
  then show ?case by simp
next
  case (Cons c cs)
  show ?case
  proof (cases "matchHere (c # cs)")
    case (Some tok)
    then have "matchHere (drop 0 (c # cs)) = Some tok \<and> (\<forall>k<0. matchHere (drop k (c # cs)) = None) \<and>
       FindStringSubmatch (c # cs) = [''Successfully built '' @ tok, tok]" by simp
    then show ?thesis by blast
  next
    case None
    with Cons.prems have "FindStringSubmatch cs \<noteq> []" by simp
    from Cons.IH [OF this] obtain n tok where n: "matchHere (drop n cs) = Some tok"
      "\<forall>k<n. matchHere (drop k cs) = None"
      "FindStringSubmatch cs = [''Successfully built '' @ tok, tok]" by blast
    have "\<forall>k<Suc n. matchHere (drop k (c # cs)) = None"
    proof (intro allI impI)
      fix k assume "k < Suc n"
      then show "matchHere (drop k (c # cs)) = None" using None n(2) by (cases k) auto
    qed
    with n None have "matchHere (drop (Suc n) (c # cs)) = Some tok \<and>
       (\<forall>k<Suc n. matchHere (drop k (c # cs)) = None) \<and>
       FindStringSubmatch (c # cs) = [''Successfully built '' @ tok, tok]" by simp
    then show ?thesis by blast
  qed
qed

lemma occurs_iff:
  "(\<exists>pre tok post. buf = pre @ ''Successfully built '' @ tok @ post \<and> length tok = 12 \<and>
       list_all idChar tok) \<longleftrightarrow> (\<exists>n tok. matchHere (drop n buf) = Some tok)"
proof
  assume "\<exists>pre tok post. buf = pre @ ''Successfully built '' @ tok @ post \<and> length tok = 12 \<and>
       list_all idChar tok"
  then obtain pre tok post where b: "buf = pre @ ''Successfully built '' @ tok @ post"
    and t: "length tok = 12" "list_all idChar tok" by blast
  from b have "drop (length pre) buf = ''Successfully built '' @ tok @ post" by simp
  with t have "matchHere (drop (length pre) buf) = Some tok" unfolding matchHere_iff by blast
  then show "\<exists>n tok. matchHere (drop n buf) = Some tok" by blast
next
  assume "\<exists>n tok. matchHere (drop n buf) = Some tok"
  then obtain n tok where "matchHere (drop n buf) = Some tok" by blast
  then obtain post where d: "drop n buf = ''Successfully built '' @ tok @ post"
    and t: "length tok = 12" "list_all idChar tok" unfolding matchHere_iff by blast
  have "buf = take n buf @ drop n buf" by simp
  with d have "buf = take n buf @ ''Successfully built '' @ tok @ post" by simp
  with t show "\<exists>pre tok post. buf = pre @ ''Successfully built '' @ tok @ post \<and> length tok = 12 \<and>
       list_all idChar tok" by blast
qed

lemma runDockerfile_built:
  assumes "dockerfile b = c # cs" and "normalizeChildren c b = Inr b2"
    and "RockerfileAstToString env (dockerfile b2) = Inr content"
    and "path = pathJoin env (ContextDir b2) (dockerfileName env)"
    and "WriteFile env path content = None"
    and "opts = \<lparr>Dockerfile = dockerfileName env, ContextDir_opt = ContextDir b2,
                  NoCache = (\<not> UtilizeCache b2), Auth_opt = Auth b2\<rparr>"
    and "BuildImage env opts = (buf, None)"
    and "DisplayJSONMessagesStream env buf = None"
    and "w2 = say (BuildImageCall opts) (say (WriteFileCall path content) w)"
  shows "runDockerfile env (b, w) =
     (if FindStringSubmatch buf = [] then (Fail parseError, b2, say (RemoveCall path) w2)
      else case InspectImage env (FindStringSubmatch buf ! 1) of
             Inl err \<Rightarrow>
               (Fail (if message err = ''no such image''
                      then Error (''No such image: '' @ FindStringSubmatch buf ! 1) else err),
                b2, say (RemoveCall path) (say (InspectImageCall (FindStringSubmatch buf ! 1)) w2))
           | Inr img \<Rightarrow>
               (Ok, (setConfig (imageConfig img) b2)\<lparr>imageID := ID img, dockerfile := []\<rparr>,
                say (RemoveCall path) (say (InspectImageCall (FindStringSubmatch buf ! 1)) w2)))"
  using assms by (simp add: runDockerfile_def Let_def split: sum.splits)


text \<open>
  C5, as amended. When the build request and the decoding of its stream succeed,
  \<^verbatim>\<open>runDockerfile\<close> looks in the captured output for \<^verbatim>\<open>Successfully built\<close>, a space and
  twelve characters that are lower-case letters or digits. If there is such an
  occurrence, the identifier is the token of the leftmost one and \<^verbatim>\<open>runDockerfile\<close> goes
  on to inspect it (its result is then what the inspection gives); if there is none, it
  fails with the build-output-parse error, inspects nothing and leaves the session as
  normalised.
\<close>

theorem runDockerfile_extraction:
  assumes "dockerfile b = c # cs" and "normalizeChildren c b = Inr b2"
    and "RockerfileAstToString env (dockerfile b2) = Inr content"
    and "path = pathJoin env (ContextDir b2) (dockerfileName env)"
    and "WriteFile env path content = None"
    and "opts = \<lparr>Dockerfile = dockerfileName env, ContextDir_opt = ContextDir b2,
                  NoCache = (\<not> UtilizeCache b2), Auth_opt = Auth b2\<rparr>"
    and "BuildImage env opts = (buf, None)"
    and "DisplayJSONMessagesStream env buf = None"
  shows "((\<exists>pre tok post. buf = pre @ ''Successfully built '' @ tok @ post \<and> length tok = 12 \<and>
             list_all idChar tok) \<longrightarrow>
          (\<exists>pre tok post. buf = pre @ ''Successfully built '' @ tok @ post \<and> length tok = 12 \<and>
             list_all idChar tok \<and>
             (\<forall>pre' tok' post'. buf = pre' @ ''Successfully built '' @ tok' @ post' \<and>
                 length tok' = 12 \<and> list_all idChar tok' \<longrightarrow> length pre \<le> length pre') \<and>
             InspectImageCall tok \<in> set (calls (snd (snd (runDockerfile env (b, w))))) \<and>
             fst (runDockerfile env (b, w)) =
               (case InspectImage env tok of
                  Inl err \<Rightarrow> Fail (if message err = ''no such image''
                                   then Error (''No such image: '' @ tok) else err)
                | Inr img \<Rightarrow> Ok))) \<and>
         (\<not> (\<exists>pre tok post. buf = pre @ ''Successfully built '' @ tok @ post \<and> length tok = 12 \<and>
             list_all idChar tok) \<longrightarrow>
          runDockerfile env (b, w) =
            (Fail parseError, b2,
             say (RemoveCall path) (say (BuildImageCall opts) (say (WriteFileCall path content) w))))"
proof (intro conjI impI)
  let ?w2 = "say (BuildImageCall opts) (say (WriteFileCall path content) w)"
  note run = runDockerfile_built [OF assms refl, of w]
  {
    assume "\<not> (\<exists>pre tok post. buf = pre @ ''Successfully built '' @ tok @ post \<and> length tok = 12 \<and>
             list_all idChar tok)"
    then have "\<forall>n. matchHere (drop n buf) = None" unfolding occurs_iff by simp
    then have "FindStringSubmatch buf = []" using FindStringSubmatch_Nil_iff [of buf] by blast
    with run show "runDockerfile env (b, w) = (Fail parseError, b2, say (RemoveCall path) ?w2)"
      by simp
  }
  {
    assume "\<exists>pre tok post. buf = pre @ ''Successfully built '' @ tok @ post \<and> length tok = 12 \<and>
             list_all idChar tok"
    then have "\<exists>n tok. matchHere (drop n buf) = Some tok" unfolding occurs_iff .
    then have ne: "FindStringSubmatch buf \<noteq> []"
      using FindStringSubmatch_Nil_iff [of buf] by auto
    from FindStringSubmatch_leftmost [OF ne] obtain n tok
      where n: "matchHere (drop n buf) = Some tok" "\<forall>k<n. matchHere (drop k buf) = None"
        and f: "FindStringSubmatch buf = [''Successfully built '' @ tok, tok]" by blast
    from n(1) obtain post where d: "drop n buf = ''Successfully built '' @ tok @ post"
      and t: "length tok = 12" "list_all idChar tok" unfolding matchHere_iff by blast
    from d have nlen: "n < length buf" by (cases "n < length buf") auto
    have b: "buf = take n buf @ ''Successfully built '' @ tok @ post"
      using d by (metis append_take_drop_id)
    have left: "length (take n buf) \<le> length pre'"
      if "buf = pre' @ ''Successfully built '' @ tok' @ post' \<and> length tok' = 12 \<and> list_all idChar tok'"
      for pre' tok' post'
    proof -
      from that have "drop (length pre') buf = ''Successfully built '' @ tok' @ post'" by simp
      with that have "matchHere (drop (length pre') buf) = Some tok'" unfolding matchHere_iff by blast
      with n(2) have "\<not> length pre' < n" by auto
      with nlen show ?thesis by simp
    qed
    have i: "FindStringSubmatch buf ! 1 = tok" using f by simp
    have c: "InspectImageCall tok \<in> set (calls (snd (snd (runDockerfile env (b, w)))))"
      using run ne i by (simp add: say_def split: sum.splits)
    have r: "fst (runDockerfile env (b, w)) =
               (case InspectImage env tok of
                  Inl err \<Rightarrow> Fail (if message err = ''no such image''
                                   then Error (''No such image: '' @ tok) else err)
                | Inr img \<Rightarrow> Ok)"
      using run ne i by (simp split: sum.splits)
    from b t left c r
    show "\<exists>pre tok post. buf = pre @ ''Successfully built '' @ tok @ post \<and> length tok = 12 \<and>
             list_all idChar tok \<and>
             (\<forall>pre' tok' post'. buf = pre' @ ''Successfully built '' @ tok' @ post' \<and>
                 length tok' = 12 \<and> list_all idChar tok' \<longrightarrow> length pre \<le> length pre') \<and>
             InspectImageCall tok \<in> set (calls (snd (snd (runDockerfile env (b, w))))) \<and>
             fst (runDockerfile env (b, w)) =
               (case InspectImage env tok of
                  Inl err \<Rightarrow> Fail (if message err = ''no such image''
                                   then Error (''No such image: '' @ tok) else err)
                | Inr img \<Rightarrow> Ok)"
      by blast
  }
qed


lemma pending_prepared:
  "dockerfile pendingBuilder = [Node ''run'' (Some (Node ''make'' None))]"
  "normalizeChildren (Node ''run'' (Some (Node ''make'' None))) pendingBuilder = Inr preparedBuilder"
  by (simp_all add: normalizeChildren_def pendingBuilder_def exampleBuilder_def preparedBuilder_def)

theorem runDockerfile_extraction_witness:
  "normalizeChildren (Node ''run'' (Some (Node ''make'' None))) pendingBuilder = Inr preparedBuilder \<and>
   BuildImage alnumEnv \<lparr>Dockerfile = ''.rockertmp_Dockerfile'', ContextDir_opt = ''/ctx'',
       NoCache = False, Auth_opt = \<lparr>Username = ''u'', Password = ''p''\<rparr>\<rparr>
     = (''Successfully built zzzzzzzzzzzz'', None) \<and>
   fst (runDockerfile alnumEnv (pendingBuilder, exampleWorld)) = Ok \<and>
   InspectImageCall ''zzzzzzzzzzzz''
     \<in> set (calls (snd (snd (runDockerfile alnumEnv (pendingBuilder, exampleWorld))))) \<and>
   BuildImage silentEnv \<lparr>Dockerfile = ''.rockertmp_Dockerfile'', ContextDir_opt = ''/ctx'',
       NoCache = False, Auth_opt = \<lparr>Username = ''u'', Password = ''p''\<rparr>\<rparr>
     = (''Step 1 : done'', None) \<and>
   fst (runDockerfile silentEnv (pendingBuilder, exampleWorld)) = Fail parseError"
proof -
  let ?c = "Node ''run'' (Some (Node ''make'' None))"
  let ?opts = "\<lparr>Dockerfile = ''.rockertmp_Dockerfile'', ContextDir_opt = ''/ctx'',
       NoCache = False, Auth_opt = \<lparr>Username = ''u'', Password = ''p''\<rparr>\<rparr>"
  let ?path = "''/ctx/.rockertmp_Dockerfile''"
  let ?lit = "''Successfully built ''"
  have a3: "RockerfileAstToString alnumEnv (dockerfile preparedBuilder) = Inr ''fromrun''"
    by (simp add: alnumEnv_def exampleEnv_def preparedBuilder_def)
  have a4: "?path = pathJoin alnumEnv (ContextDir preparedBuilder) (dockerfileName alnumEnv)"
    by (simp add: alnumEnv_def exampleEnv_def preparedBuilder_def pendingBuilder_def exampleBuilder_def)
  have a5: "WriteFile alnumEnv ?path ''fromrun'' = None" by (simp add: alnumEnv_def exampleEnv_def)
  have a6: "?opts = \<lparr>Dockerfile = dockerfileName alnumEnv, ContextDir_opt = ContextDir preparedBuilder,
                  NoCache = (\<not> UtilizeCache preparedBuilder), Auth_opt = Auth preparedBuilder\<rparr>"
    by (simp add: alnumEnv_def exampleEnv_def preparedBuilder_def pendingBuilder_def exampleBuilder_def)
  have a7: "BuildImage alnumEnv ?opts = (''Successfully built zzzzzzzzzzzz'', None)"
    by (simp add: alnumEnv_def)
  have a8: "DisplayJSONMessagesStream alnumEnv ''Successfully built zzzzzzzzzzzz'' = None"
    by (simp add: alnumEnv_def exampleEnv_def)
  have occ: "\<exists>pre tok post. ''Successfully built zzzzzzzzzzzz'' = pre @ ?lit @ tok @ post \<and>
      length tok = 12 \<and> list_all idChar tok"
  proof -
    have "''Successfully built zzzzzzzzzzzz'' = [] @ ?lit @ ''zzzzzzzzzzzz'' @ [] \<and>
      length ''zzzzzzzzzzzz'' = 12 \<and> list_all idChar ''zzzzzzzzzzzz''"
      by (simp add: idChar_def)
    then show ?thesis by blast
  qed
  from runDockerfile_extraction [OF pending_prepared a3 a4 a5 a6 a7 a8, of exampleWorld] occ
  obtain pre tok post where o: "''Successfully built zzzzzzzzzzzz'' = pre @ ?lit @ tok @ post"
      "length tok = 12"
      "\<forall>pre' tok' post'. ''Successfully built zzzzzzzzzzzz'' = pre' @ ?lit @ tok' @ post' \<and>
          length tok' = 12 \<and> list_all idChar tok' \<longrightarrow> length pre \<le> length pre'"
    and c: "InspectImageCall tok \<in> set (calls (snd (snd (runDockerfile alnumEnv (pendingBuilder, exampleWorld)))))"
    and r: "fst (runDockerfile alnumEnv (pendingBuilder, exampleWorld)) =
               (case InspectImage alnumEnv tok of
                  Inl err \<Rightarrow> Fail (if message err = ''no such image''
                                   then Error (''No such image: '' @ tok) else err)
                | Inr img \<Rightarrow> Ok)"
    by blast
  have "''Successfully built zzzzzzzzzzzz'' = [] @ ?lit @ ''zzzzzzzzzzzz'' @ [] \<and>
      length ''zzzzzzzzzzzz'' = 12 \<and> list_all idChar ''zzzzzzzzzzzz''"
    by (simp add: idChar_def)
  with o(3) have "length pre \<le> length ([]::string)" by blast
  then have "pre = []" by simp
  with o(1) have "''zzzzzzzzzzzz'' = tok @ post" by simp
  then have "take (length tok) ''zzzzzzzzzzzz'' = take (length tok) (tok @ post)" by (simp only:)
  with o(2) have tok: "tok = ''zzzzzzzzzzzz''" by simp
  have ok: "fst (runDockerfile alnumEnv (pendingBuilder, exampleWorld)) = Ok"
    using r tok by (simp add: alnumEnv_def)
  have b3: "RockerfileAstToString silentEnv (dockerfile preparedBuilder) = Inr ''fromrun''"
    by (simp add: silentEnv_def exampleEnv_def preparedBuilder_def)
  have b4: "?path = pathJoin silentEnv (ContextDir preparedBuilder) (dockerfileName silentEnv)"
    by (simp add: silentEnv_def exampleEnv_def preparedBuilder_def pendingBuilder_def exampleBuilder_def)
  have b5: "WriteFile silentEnv ?path ''fromrun'' = None" by (simp add: silentEnv_def exampleEnv_def)
  have b6: "?opts = \<lparr>Dockerfile = dockerfileName silentEnv, ContextDir_opt = ContextDir preparedBuilder,
                  NoCache = (\<not> UtilizeCache preparedBuilder), Auth_opt = Auth preparedBuilder\<rparr>"
    by (simp add: silentEnv_def exampleEnv_def preparedBuilder_def pendingBuilder_def exampleBuilder_def)
  have b7: "BuildImage silentEnv ?opts = (''Step 1 : done'', None)"
    by (simp add: silentEnv_def)
  have b8: "DisplayJSONMessagesStream silentEnv ''Step 1 : done'' = None"
    by (simp add: silentEnv_def exampleEnv_def)
  have "FindStringSubmatch ''Step 1 : done'' = []" by (simp add: matchHere_def)
  then have "\<forall>n. matchHere (drop n ''Step 1 : done'') = None"
    using FindStringSubmatch_Nil_iff [of "''Step 1 : done''"] by blast
  then have nocc: "\<not> (\<exists>pre tok post. ''Step 1 : done'' = pre @ ?lit @ tok @ post \<and>
      length tok = 12 \<and> list_all idChar tok)"
    unfolding occurs_iff by simp
  from runDockerfile_extraction [OF pending_prepared b3 b4 b5 b6 b7 b8, of exampleWorld] nocc
  have fail: "fst (runDockerfile silentEnv (pendingBuilder, exampleWorld)) = Fail parseError"
    by simp
  from pending_prepared(2) a7 ok c tok b7 fail show ?thesis by simp
qed

text \<open>
  C5, as stated, fails: the output below holds no 12-character hexadecimal token, and
  \<^verbatim>\<open>runDockerfile\<close> does not fail with the parse error; it takes \<^verbatim>\<open>zzzzzzzzzzzz\<close> for the
  identifier, inspects it and succeeds.
\<close>

theorem runDockerfile_hex_token_counterexample:
  "\<not> specHexToken ''Successfully built zzzzzzzzzzzz'' \<and>
   BuildImage alnumEnv \<lparr>Dockerfile = ''.rockertmp_Dockerfile'', ContextDir_opt = ''/ctx'',
       NoCache = False, Auth_opt = \<lparr>Username = ''u'', Password = ''p''\<rparr>\<rparr>
     = (''Successfully built zzzzzzzzzzzz'', None) \<and>
   fst (runDockerfile alnumEnv (pendingBuilder, exampleWorld)) = Ok \<and>
   imageID (fst (snd (runDockerfile alnumEnv (pendingBuilder, exampleWorld)))) = ''c'' \<and>
   fst (runDockerfile alnumEnv (pendingBuilder, exampleWorld)) \<noteq> Fail parseError"
  by (simp add: hexChar_def runDockerfile_def normalizeChildren_def pendingBuilder_def exampleBuilder_def
      alnumEnv_def exampleEnv_def matchHere_def idChar_def setConfig_def imageC_def
      exampleConfig_def Let_def)

section \<open>An image the engine does not know\<close>

text \<open>
  C6, as amended. When \<^verbatim>\<open>ensureImage\<close> inspects a name and the engine reports
  \<^verbatim>\<open>no such image\<close>, it pulls the image, resolved into registry, repository and tag: it
  returns \<^verbatim>\<open>nil\<close> when the pull and the decoding of its stream succeed, and otherwise an
  error that starts \<^verbatim>\<open>Failed to pull image:\<close> or
  \<^verbatim>\<open>Failed to process json stream for image:\<close>; never \<^verbatim>\<open>No such image: <id>\<close>. The
  error \<^verbatim>\<open>No such image: <id>\<close>, naming the identifier, is what \<^verbatim>\<open>runDockerfile\<close> returns
  when the engine reports \<^verbatim>\<open>no such image\<close> for the identifier taken from the build
  output.
\<close>

theorem ensureImage_pulls_missing_image:
  "(InspectImage env imageName = Inl err \<and> message err = ''no such image'' \<longrightarrow>
      (let name = NewFromString env imageName;
           pullOpts = \<lparr>Repository = NameWithRegistry env name, pullRegistry = Registry name,
                       pullTag = GetTag env name\<rparr>;
           (out, pullErr) = PullImage env pullOpts (Auth b)
       in PullImageCall pullOpts \<in> set (calls (snd (ensureImage env imageName purpose b w))) \<and>
          fst (ensureImage env imageName purpose b w) =
            (case DisplayJSONMessagesStream env out of
               Some e \<Rightarrow> Some (Error (''Failed to process json stream for image: ''
                                       @ String env name @ '', error: '' @ message e))
             | None \<Rightarrow>
                 (case pullErr of
                    Some e \<Rightarrow> Some (Error (''Failed to pull image: '' @ String env name
                                            @ '', error: '' @ message e))
                  | None \<Rightarrow> None)) \<and>
          fst (ensureImage env imageName purpose b w) \<noteq> Some (Error (''No such image: '' @ x)))) \<and>
   (dockerfile b = c # cs \<and> normalizeChildren c b = Inr b2 \<and>
    RockerfileAstToString env (dockerfile b2) = Inr content \<and>
    WriteFile env (pathJoin env (ContextDir b2) (dockerfileName env)) content = None \<and>
    BuildImage env \<lparr>Dockerfile = dockerfileName env, ContextDir_opt = ContextDir b2,
                     NoCache = (\<not> UtilizeCache b2), Auth_opt = Auth b2\<rparr> = (buf, None) \<and>
    DisplayJSONMessagesStream env buf = None \<and>
    FindStringSubmatch buf = [whole, builtID] \<and>
    InspectImage env builtID = Inl err \<and> message err = ''no such image'' \<longrightarrow>
      fst (runDockerfile env (b, w)) = Fail (Error (''No such image: '' @ builtID)))"
proof (intro conjI impI)
  assume a: "InspectImage env imageName = Inl err \<and> message err = ''no such image''"
  show "let name = NewFromString env imageName;
           pullOpts = \<lparr>Repository = NameWithRegistry env name, pullRegistry = Registry name,
                       pullTag = GetTag env name\<rparr>;
           (out, pullErr) = PullImage env pullOpts (Auth b)
       in PullImageCall pullOpts \<in> set (calls (snd (ensureImage env imageName purpose b w))) \<and>
          fst (ensureImage env imageName purpose b w) =
            (case DisplayJSONMessagesStream env out of
               Some e \<Rightarrow> Some (Error (''Failed to process json stream for image: ''
                                       @ String env name @ '', error: '' @ message e))
             | None \<Rightarrow>
                 (case pullErr of
                    Some e \<Rightarrow> Some (Error (''Failed to pull image: '' @ String env name
                                            @ '', error: '' @ message e))
                  | None \<Rightarrow> None)) \<and>
          fst (ensureImage env imageName purpose b w) \<noteq> Some (Error (''No such image: '' @ x))"
    using a by (simp add: ensureImage_def Let_def say_def split: prod.splits option.splits)
next
  assume a: "dockerfile b = c # cs \<and> normalizeChildren c b = Inr b2 \<and>
    RockerfileAstToString env (dockerfile b2) = Inr content \<and>
    WriteFile env (pathJoin env (ContextDir b2) (dockerfileName env)) content = None \<and>
    BuildImage env \<lparr>Dockerfile = dockerfileName env, ContextDir_opt = ContextDir b2,
                     NoCache = (\<not> UtilizeCache b2), Auth_opt = Auth b2\<rparr> = (buf, None) \<and>
    DisplayJSONMessagesStream env buf = None \<and>
    FindStringSubmatch buf = [whole, builtID] \<and>
    InspectImage env builtID = Inl err \<and> message err = ''no such image''"
  then have "runDockerfile env (b, w) =
     (if FindStringSubmatch buf = [] then
        (Fail parseError, b2, say (RemoveCall (pathJoin env (ContextDir b2) (dockerfileName env)))
          (say (BuildImageCall \<lparr>Dockerfile = dockerfileName env, ContextDir_opt = ContextDir b2,
                     NoCache = (\<not> UtilizeCache b2), Auth_opt = Auth b2\<rparr>)
            (say (WriteFileCall (pathJoin env (ContextDir b2) (dockerfileName env)) content) w)))
      else case InspectImage env (FindStringSubmatch buf ! 1) of
             Inl err \<Rightarrow>
               (Fail (if message err = ''no such image''
                      then Error (''No such image: '' @ FindStringSubmatch buf ! 1) else err),
                b2, say (RemoveCall (pathJoin env (ContextDir b2) (dockerfileName env)))
                  (say (InspectImageCall (FindStringSubmatch buf ! 1))
                    (say (BuildImageCall \<lparr>Dockerfile = dockerfileName env, ContextDir_opt = ContextDir b2,
                     NoCache = (\<not> UtilizeCache b2), Auth_opt = Auth b2\<rparr>)
            (say (WriteFileCall (pathJoin env (ContextDir b2) (dockerfileName env)) content) w))))
           | Inr img \<Rightarrow>
               (Ok, (setConfig (imageConfig img) b2)\<lparr>imageID := ID img, dockerfile := []\<rparr>,
                say (RemoveCall (pathJoin env (ContextDir b2) (dockerfileName env)))
                  (say (InspectImageCall (FindStringSubmatch buf ! 1))
                    (say (BuildImageCall \<lparr>Dockerfile = dockerfileName env, ContextDir_opt = ContextDir b2,
                     NoCache = (\<not> UtilizeCache b2), Auth_opt = Auth b2\<rparr>)
            (say (WriteFileCall (pathJoin env (ContextDir b2) (dockerfileName env)) content) w)))))"
    by (intro runDockerfile_built) auto
  with a show "fst (runDockerfile env (b, w)) = Fail (Error (''No such image: '' @ builtID))"
    by simp
qed

theorem ensureImage_pulls_missing_image_witness:
  "InspectImage exampleEnv ''missing'' = Inl (Error ''no such image'') \<and>
   fst (ensureImage exampleEnv ''missing'' ''build'' exampleBuilder exampleWorld) = None \<and>
   PullImageCall \<lparr>Repository = ''missing'', pullRegistry = [], pullTag = ''latest''\<rparr>
     \<in> set (calls (snd (ensureImage exampleEnv ''missing'' ''build'' exampleBuilder exampleWorld))) \<and>
   FindStringSubmatch ''Successfully built cccccccccccc''
     = [''Successfully built cccccccccccc'', ''cccccccccccc''] \<and>
   InspectImage builtEnv ''cccccccccccc'' = Inl (Error ''no such image'') \<and>
   fst (runDockerfile builtEnv (pendingBuilder, exampleWorld))
     = Fail (Error ''No such image: cccccccccccc'')"
proof -
  let ?c = "Node ''run'' (Some (Node ''make'' None))"
  have i: "InspectImage exampleEnv ''missing'' = Inl (Error ''no such image'') \<and>
      message (Error ''no such image'') = ''no such image''"
    by (simp add: exampleEnv_def)
  have f: "FindStringSubmatch ''Successfully built cccccccccccc''
     = [''Successfully built cccccccccccc'', ''cccccccccccc'']"
    by (simp add: matchHere_def idChar_def)
  have h: "dockerfile pendingBuilder = ?c # [] \<and> normalizeChildren ?c pendingBuilder = Inr preparedBuilder \<and>
    RockerfileAstToString builtEnv (dockerfile preparedBuilder) = Inr ''fromrun'' \<and>
    WriteFile builtEnv (pathJoin builtEnv (ContextDir preparedBuilder) (dockerfileName builtEnv)) ''fromrun'' = None \<and>
    BuildImage builtEnv \<lparr>Dockerfile = dockerfileName builtEnv, ContextDir_opt = ContextDir preparedBuilder,
                     NoCache = (\<not> UtilizeCache preparedBuilder), Auth_opt = Auth preparedBuilder\<rparr>
       = (''Successfully built cccccccccccc'', None) \<and>
    DisplayJSONMessagesStream builtEnv ''Successfully built cccccccccccc'' = None \<and>
    InspectImage builtEnv ''cccccccccccc'' = Inl (Error ''no such image'') \<and>
    message (Error ''no such image'') = ''no such image''"
    by (simp add: normalizeChildren_def pendingBuilder_def exampleBuilder_def preparedBuilder_def
        builtEnv_def exampleEnv_def)
  note th = ensureImage_pulls_missing_image
  from th [where env = exampleEnv and imageName = "''missing''" and err = "Error ''no such image''"
      and b = exampleBuilder and purpose = "''build''" and w = exampleWorld and x = "''missing''"] i
  have 1: "fst (ensureImage exampleEnv ''missing'' ''build'' exampleBuilder exampleWorld) = None"
    and 2: "PullImageCall \<lparr>Repository = ''missing'', pullRegistry = [], pullTag = ''latest''\<rparr>
     \<in> set (calls (snd (ensureImage exampleEnv ''missing'' ''build'' exampleBuilder exampleWorld)))"
    by (simp_all add: exampleEnv_def Let_def)
  from th [where env = builtEnv and imageName = "''missing''" and purpose = "''build''"
      and x = "''missing''" and err = "Error ''no such image''" and b = pendingBuilder
      and c = ?c and cs = "[]" and ?b2.0 = preparedBuilder and content = "''fromrun''"
      and buf = "''Successfully built cccccccccccc''"
      and whole = "''Successfully built cccccccccccc''" and builtID = "''cccccccccccc''"
      and w = exampleWorld] h f
  have 3: "fst (runDockerfile builtEnv (pendingBuilder, exampleWorld))
     = Fail (Error ''No such image: cccccccccccc'')"
    by (simp add: matchHere_def idChar_def)
  from i 1 2 f h 3 show ?thesis by simp
qed

text \<open>
  C6, as stated, fails: the engine reports \<^verbatim>\<open>no such image\<close> for \<^verbatim>\<open>missing\<close>, the pull
  succeeds, and \<^verbatim>\<open>ensureImage\<close> returns \<^verbatim>\<open>nil\<close>, no error at all.
\<close>

theorem ensureImage_no_such_image_counterexample:
  "InspectImage exampleEnv ''missing'' = Inl (Error ''no such image'') \<and>
   fst (ensureImage exampleEnv ''missing'' ''build'' exampleBuilder exampleWorld) = None \<and>
   fst (ensureImage exampleEnv ''missing'' ''build'' exampleBuilder exampleWorld)
     \<noteq> Some (Error ''No such image: missing'')"
  by (simp add: ensureImage_def exampleEnv_def Let_def)


section \<open>The export container\<close>

text \<open>
  C8. After a call of \<^verbatim>\<open>makeExportsContainer\<close> that returned an identifier (an engine's
  container identifier is not empty) and no error, a second call, whatever the engine
  would answer, returns the same identifier and leaves session and world as they are:
  it contacts nobody. The first call asked the engine to ensure a container at most
  once, so both calls together did.
\<close>

theorem makeExportsContainer_memoized:
  assumes "makeExportsContainer env (b, w) = ((cid, None), b', w')" and "cid \<noteq> []"
  shows "makeExportsContainer env' (b', w') = ((cid, None), b', w') \<and>
         exportsContainerID b' = cid \<and>
         length (filter isEnsure (calls w')) \<le> length (filter isEnsure (calls w)) + 1"
  using assms
  by (auto simp: makeExportsContainer_def Let_def say_def isEnsure_def
      split: if_splits sum.splits)

theorem makeExportsContainer_memoized_witness:
  "fst (makeExportsContainer exampleEnv (exampleBuilder, exampleWorld)) = (''e1'', None) \<and>
   makeExportsContainer failingEnv (snd (makeExportsContainer exampleEnv (exampleBuilder, exampleWorld)))
     = ((''e1'', None), snd (makeExportsContainer exampleEnv (exampleBuilder, exampleWorld))) \<and>
   length (filter isEnsure
     (calls (snd (snd (makeExportsContainer exampleEnv (exampleBuilder, exampleWorld)))))) = 1"
proof -
  let ?m = "makeExportsContainer exampleEnv (exampleBuilder, exampleWorld)"
  have f: "fst ?m = (''e1'', None)"
    by (simp add: makeExportsContainer_def exampleEnv_def exampleBuilder_def Let_def)
  then have m: "?m = ((''e1'', None), fst (snd ?m), snd (snd ?m))"
    by (metis prod.collapse)
  have ne: "''e1'' \<noteq> []" by simp
  from makeExportsContainer_memoized [OF m ne, of failingEnv]
  have 1: "makeExportsContainer failingEnv (snd ?m) = ((''e1'', None), snd ?m)" by simp
  have 2: "length (filter isEnsure (calls (snd (snd ?m)))) = 1"
    by (simp add: makeExportsContainer_def exampleEnv_def exampleBuilder_def Let_def say_def
        exampleWorld_def isEnsure_def)
  from f 1 2 show ?thesis by simp
qed

section \<open>Scoped overrides of the configuration draft\<close>

text \<open>
  What does hold: the function returned by \<^verbatim>\<open>temporaryCmd\<close> puts the prior command back,
  the one returned by \<^verbatim>\<open>temporaryConfig\<close> puts the prior struct back, and with it the
  prior value of the draft as long as the maps the struct refers to were not written in
  place.
\<close>

lemma temporaryCmd_restores:
  "temporaryCmd cmd b = (restore, b1) \<Longrightarrow>
     Cmd (Config b1) = cmd \<and> Cmd (Config (restore b')) = Cmd (Config b)"
  by (auto simp: temporaryCmd_def Let_def)

lemma temporaryConfig_restores_struct:
  "temporaryConfig fn (b, w) = (restore, s1) \<Longrightarrow> s1 = fn (b, w) \<and> Config (restore b') = Config b"
  by (auto simp: temporaryConfig_def Let_def)

lemma temporaryConfig_restores_value:
  assumes "temporaryConfig fn (b, w) = (restore, s1)"
    and "\<forall>r. Labels (Config b) = Some r \<longrightarrow> readLabels b' r = readLabels b r"
    and "\<forall>r. Volumes (Config b) = Some r \<longrightarrow> readVolumes b' r = readVolumes b r"
  shows "configValue (restore b') (Config (restore b')) = configValue b (Config b)"
proof -
  from assms(1) have r: "restore = (\<lambda>b'. b'\<lparr>Config := Config b\<rparr>)"
    by (auto simp: temporaryConfig_def Let_def)
  have l: "map_option (readLabels (b'\<lparr>Config := Config b\<rparr>)) (Labels (Config b))
            = map_option (readLabels b) (Labels (Config b))"
    using assms(2) by (cases "Labels (Config b)") (simp_all add: readLabels_def)
  have v: "map_option (readVolumes (b'\<lparr>Config := Config b\<rparr>)) (Volumes (Config b))
            = map_option (readVolumes b) (Volumes (Config b))"
    using assms(3) by (cases "Volumes (Config b)") (simp_all add: readVolumes_def)
  show ?thesis unfolding r configValue_def using l v by simp
qed

text \<open>
  C2 fails where the scope writes a map of the draft in place. The draft of the sample
  session has the label \<open>a\<close>; the mutator adds the label \<open>k\<close> through \<^verbatim>\<open>addLabels\<close>.
  After the scope has ended the struct is the prior one, and the label \<open>k\<close> is still
  there: the copy taken by \<^verbatim>\<open>temporaryConfig\<close> shares its label map with the draft.
\<close>

theorem temporaryConfig_shares_label_map:
  "(let (restore, b1, w1) = temporaryConfig labelMutator (exampleBuilder, exampleWorld);
        b2 = restore b1
    in Config b2 = Config exampleBuilder \<and>
       readLabels exampleBuilder 0 ''k'' = None \<and>
       readLabels b2 0 ''k'' = Some ''v'' \<and>
       Labels (configValue exampleBuilder (Config exampleBuilder)) = Some [''a'' \<mapsto> ''1''] \<and>
       Labels (configValue b2 (Config b2)) = Some [''a'' \<mapsto> ''1'', ''k'' \<mapsto> ''v''] \<and>
       configValue b2 (Config b2) \<noteq> configValue exampleBuilder (Config exampleBuilder))"
proof -
  let ?b1 = "addLabels [''k'' \<mapsto> ''v''] exampleBuilder"
  let ?b2 = "?b1\<lparr>Config := Config exampleBuilder\<rparr>"
  have t: "temporaryConfig labelMutator (exampleBuilder, exampleWorld)
            = (\<lambda>b'. b'\<lparr>Config := Config exampleBuilder\<rparr>, ?b1, exampleWorld)"
    by (simp add: temporaryConfig_def labelMutator_def Let_def)
  have c: "Config ?b2 = Config exampleBuilder" by simp
  have s: "labelStore ?b1 = [0 \<mapsto> [''a'' \<mapsto> ''1'', ''k'' \<mapsto> ''v'']]"
    by (simp add: addLabels_def exampleBuilder_def readLabels_def Let_def)
  have k0: "readLabels exampleBuilder 0 ''k'' = None"
    by (simp add: readLabels_def exampleBuilder_def)
  have l0: "readLabels exampleBuilder 0 = [''a'' \<mapsto> ''1'']"
    by (simp add: readLabels_def exampleBuilder_def)
  have l2: "readLabels ?b2 0 = [''a'' \<mapsto> ''1'', ''k'' \<mapsto> ''v'']"
    using s by (simp add: readLabels_def)
  then have k2: "readLabels ?b2 0 ''k'' = Some ''v''" by simp
  have v0: "Labels (configValue exampleBuilder (Config exampleBuilder)) = Some [''a'' \<mapsto> ''1'']"
    using l0 by (simp add: configValue_def) (simp add: exampleBuilder_def)
  have v2: "Labels (configValue ?b2 (Config ?b2)) = Some [''a'' \<mapsto> ''1'', ''k'' \<mapsto> ''v'']"
    using l2 by (simp add: configValue_def) (simp add: exampleBuilder_def)
  have "[''a'' \<mapsto> ''1'', ''k'' \<mapsto> ''v''] \<noteq> [''a'' \<mapsto> ''1'']"
    by (metis k0 k2 l0 l2 option.distinct(1))
  with v0 v2 have ne: "configValue ?b2 (Config ?b2) \<noteq> configValue exampleBuilder (Config exampleBuilder)"
    by (metis option.inject)
  from c k0 k2 v0 v2 ne show ?thesis unfolding t Let_def prod.case by blast
qed

section \<open>The build driver on an empty instruction sequence\<close>

text \<open>
  C9. With an empty pending-instruction sequence \<^verbatim>\<open>runDockerfile\<close> returns \<^verbatim>\<open>nil\<close> and
  leaves the whole session as it was (image identity, configuration draft and the maps
  it refers to, pending buffer, cache flags, mounts); the world is the same too: no
  engine call, no file written.
\<close>

theorem runDockerfile_empty_noop:
  "dockerfile b = [] \<Longrightarrow> runDockerfile env (b, w) = (Ok, b, w)"
  by (simp add: runDockerfile_def)

theorem runDockerfile_empty_noop_witness:
  "dockerfile exampleBuilder = [] \<and>
   runDockerfile exampleEnv (exampleBuilder, exampleWorld) = (Ok, exampleBuilder, exampleWorld)"
  using runDockerfile_empty_noop [of exampleBuilder exampleEnv exampleWorld]
  by (simp add: exampleBuilder_def)



end
